theory Spec2Isabelle
  imports Complex_Main "HOL-Library.Sublist"
begin

section \<open>Download routes of the YouTube downloader (backend/routes/downloader.js)\<close>

text \<open>
  The development embeds, from \<^verbatim>\<open>src/backend/routes/downloader.js\<close>, the job runner
  \<open>runYtDlp\<close> (lines 28 to 69), the progress store \<open>progressMap\<close> (line 20), the URL test
  \<open>isValidYouTubeUrl\<close> (lines 81 to 83), the routes \<open>/download/video\<close> (lines 117 to 156)
  and \<open>/download/playlist\<close> (lines 189 to 218), and the route \<open>/download/progress/:id\<close>
  (lines 221 to 226).

  Conventions of the embedding:
  \<^item> a JavaScript string is a \<open>string\<close>; one \<open>char\<close> stands for one UTF-16 code unit below 256;
  \<^item> \<open>Number(match[1])\<close> is an IEEE double in the code; the embedding keeps the exact decimal
    value of the text (a \<open>rat\<close>). The double is that value rounded, or \<open>Infinity\<close> for a text
    that is too large, so the two can differ (the text \<open>100.00000000000000001\<close> is above 100
    here and equal to 100 in the code). They agree in being not negative, which is all that
    the properties below use of a parsed percent besides the decimal texts of the examples;
  \<^item> the child process is the list of events that Node delivers to the handlers registered by
    \<open>runYtDlp\<close>; the promise is a value that is settled at most once;
  \<^item> every call with an effect outside the function (\<open>fs.mkdirSync\<close>, \<open>spawn\<close>,
    \<open>progressMap.set\<close>) is appended to a chronological log \<open>effects\<close>;
  \<^item> \<open>uuidv4()\<close>, \<open>DOWNLOAD_DIR\<close> and Node's platform dependent \<open>path.join\<close> are parameters.
\<close>

subsection \<open>Regular expressions with JavaScript's backtracking order\<close>

text \<open>
  A pattern is a list of nodes. Only the constructs of the pattern literal in \<open>runYtDlp\<close> occur:
  single characters and classes, greedy \<open>+\<close> on a class, lazy \<open>*?\<close> on a class, and
  capture groups (as an opening and a closing mark).
\<close>

datatype atom = Ch char | Digit | WordCh | Space | AnyCh

definition is_digit :: "char \<Rightarrow> bool" where
  "is_digit c = (c \<in> set ''0123456789'')"

definition is_word :: "char \<Rightarrow> bool" where
  "is_word c = (c \<in> set ''abcdefghijklmnopqrstuvwxyzABCDEFGHIJKLMNOPQRSTUVWXYZ0123456789_'')"

text \<open>\<open>\s\<close>: tab, line feed, vertical tab, form feed, carriage return, space, no-break space.\<close>

definition is_space :: "char \<Rightarrow> bool" where
  "is_space c = (c \<in> {CHR 0x09, CHR 0x0A, CHR 0x0B, CHR 0x0C, CHR 0x0D, CHR '' '', CHR 0xA0})"

text \<open>The dot matches every character but a line terminator.\<close>

definition is_line_terminator :: "char \<Rightarrow> bool" where
  "is_line_terminator c = (c \<in> {CHR 0x0A, CHR 0x0D})"

fun atom_matches :: "atom \<Rightarrow> char \<Rightarrow> bool" where
  "atom_matches (Ch x) c = (c = x)"
| "atom_matches Digit c = is_digit c"
| "atom_matches WordCh c = is_word c"
| "atom_matches Space c = is_space c"
| "atom_matches AnyCh c = (\<not> is_line_terminator c)"

definition class_matches :: "atom list \<Rightarrow> char \<Rightarrow> bool" where
  "class_matches as c = list_ex (\<lambda>a. atom_matches a c) as"

datatype node =
    Once "atom list"
  | Many1 "atom list"
  | Many0 "atom list"
  | Lazy0 "atom list"
  | GroupOpen nat
  | GroupClose nat

text \<open>
  \<open>run p s os cs\<close> matches the pattern \<open>p\<close> at the start of \<open>s\<close> and returns the captures of the
  first match in JavaScript's priority order: a greedy quantifier tries the longer repetition
  first, a lazy one the shorter. \<open>os\<close> holds, for each opened group, the input that was left when
  it was opened; \<open>cs\<close> holds the closed groups. \<open>Many1\<close> is one mandatory character followed by
  \<open>Many0\<close>.
\<close>

fun run :: "node list \<Rightarrow> string \<Rightarrow> (nat \<times> string) list \<Rightarrow> (nat \<times> string) list
    \<Rightarrow> (nat \<times> string) list option" where
  "run [] s os cs = Some cs"
| "run (Once a # p) [] os cs = None"
| "run (Once a # p) (c # s) os cs = (if class_matches a c then run p s os cs else None)"
| "run (Many1 a # p) [] os cs = None"
| "run (Many1 a # p) (c # s) os cs =
     (if class_matches a c then run (Many0 a # p) s os cs else None)"
| "run (Many0 a # p) [] os cs = run p [] os cs"
| "run (Many0 a # p) (c # s) os cs =
     (if class_matches a c
      then (case run (Many0 a # p) s os cs of
              Some r \<Rightarrow> Some r
            | None \<Rightarrow> run p (c # s) os cs)
      else run p (c # s) os cs)"
| "run (Lazy0 a # p) [] os cs = run p [] os cs"
| "run (Lazy0 a # p) (c # s) os cs =
     (case run p (c # s) os cs of
        Some r \<Rightarrow> Some r
      | None \<Rightarrow> if class_matches a c then run (Lazy0 a # p) s os cs else None)"
| "run (GroupOpen n # p) s os cs = run p s ((n, s) # os) cs"
| "run (GroupClose n # p) s os cs =
     (case map_of os n of
        None \<Rightarrow> run p s os cs
      | Some s0 \<Rightarrow> run p s os ((n, take (length s0 - length s) s0) # cs))"

text \<open>\<open>String.prototype.match\<close> without the \<open>g\<close> flag: the leftmost position with a match.\<close>

fun search :: "node list \<Rightarrow> string \<Rightarrow> (nat \<times> string) list option" where
  "search p [] = run p [] [] []"
| "search p (c # s) = (case run p (c # s) [] [] of Some r \<Rightarrow> Some r | None \<Rightarrow> search p s)"

definition lit :: "string \<Rightarrow> node list" where
  "lit s = map (\<lambda>c. Once [Ch c]) s"

text \<open>
  The pattern of \<open>runYtDlp\<close> (line 38):
  \<^verbatim>\<open>/\[download\]\s+(\d+\.\d+)%.*?\s(\d+\.\d+\w+\/s)\sETA\s([\d:]+)/\<close>
\<close>

definition progress_re :: "node list" where
  "progress_re =
     lit ''[download]'' @ [Many1 [Space],
       GroupOpen 1, Many1 [Digit], Once [Ch CHR ''.''], Many1 [Digit], GroupClose 1,
       Once [Ch CHR ''%''], Lazy0 [AnyCh], Once [Space],
       GroupOpen 2, Many1 [Digit], Once [Ch CHR ''.''], Many1 [Digit], Many1 [WordCh],
         Once [Ch CHR ''/''], Once [Ch CHR ''s''], GroupClose 2,
       Once [Space]] @ lit ''ETA'' @ [Once [Space],
       GroupOpen 3, Many1 [Digit, Ch CHR '':''], GroupClose 3]"

text \<open>
  \<open>match[n]\<close>. A group that did not take part would be the empty text here; every match of
  \<open>progress_re\<close> has its three groups (\<open>match_has_groups\<close> below).
\<close>

definition group :: "(nat \<times> string) list \<Rightarrow> nat \<Rightarrow> string" where
  "group cs n = (case map_of cs n of None \<Rightarrow> [] | Some s \<Rightarrow> s)"

text \<open>
  The groups that a match of a pattern is sure to capture: those that are closed after they
  were opened.
\<close>

fun captured :: "node list \<Rightarrow> nat set \<Rightarrow> nat set" where
  "captured [] opened = {}"
| "captured (GroupOpen n # p) opened = captured p (insert n opened)"
| "captured (GroupClose n # p) opened =
     (if n \<in> opened then {n} else {}) \<union> captured p opened"
| "captured (x # p) opened = captured p opened"

subsection \<open>Numbers and their texts\<close>

text \<open>The value of a decimal digit is its place in the digits; any other character counts 0.\<close>

definition digit_value :: "char \<Rightarrow> nat" where
  "digit_value c =
     (if is_digit c then length (takeWhile (\<lambda>d. d \<noteq> c) ''0123456789'') else 0)"

definition digits_value :: "string \<Rightarrow> nat" where
  "digits_value s = foldl (\<lambda>a c. 10 * a + digit_value c) 0 s"

text \<open>
  \<open>Number\<close> on a text of the shape \<open>\d+\.\d+\<close>, the only texts that the first group of
  \<open>progress_re\<close> yields: the integer part plus the fraction. The value is never negative.
\<close>

definition Number :: "string \<Rightarrow> rat" where
  "Number s =
     (let ip = takeWhile (\<lambda>c. c \<noteq> CHR ''.'') s;
          fp = drop 1 (dropWhile (\<lambda>c. c \<noteq> CHR ''.'') s)
      in of_nat (digits_value ip) + of_nat (digits_value fp) / 10 ^ length fp)"

definition digit_char :: "nat \<Rightarrow> char" where
  "digit_char d = ''0123456789'' ! d"

fun decimal :: "nat \<Rightarrow> string" where
  "decimal n = (if 10 \<le> n then decimal (n div 10) @ [digit_char (n mod 10)] else [digit_char n])"

text \<open>The text of an integer number, as a template literal prints it.\<close>

definition number_text :: "int \<Rightarrow> string" where
  "number_text k = (if 0 \<le> k then decimal (nat k) else CHR ''-'' # decimal (nat (- k)))"

text \<open>The exit code in a template literal: a number, or \<open>null\<close> when a signal ended the process.\<close>

definition string_of_code :: "int option \<Rightarrow> string" where
  "string_of_code code = (case code of None \<Rightarrow> ''null'' | Some n \<Rightarrow> number_text n)"

subsection \<open>Progress snapshots and the progress store\<close>

text \<open>
  The four object literals that \<open>runYtDlp\<close> stores (lines 33, 40 to 45, 54 and 64, 60); the
  status texts \<open>starting\<close>, \<open>downloading\<close>, \<open>completed\<close> and \<open>error\<close> are a datatype.
\<close>

datatype status = Starting | Downloading | Completed | Error

text \<open>A key of an object literal is absent, \<open>null\<close>, or holds a value.\<close>

datatype 'a field = Absent | Null | Val 'a

record snapshot =
  status :: status
  percent :: "rat field"
  speed :: "string field"
  eta :: "string field"
  error :: "string field"

definition starting_snapshot :: snapshot where
  "starting_snapshot =
     \<lparr>status = Starting, percent = Val 0, speed = Null, eta = Null, error = Absent\<rparr>"

definition downloading_snapshot :: "(nat \<times> string) list \<Rightarrow> snapshot" where
  "downloading_snapshot m =
     \<lparr>status = Downloading, percent = Val (Number (group m 1)),
      speed = Val (group m 2), eta = Val (group m 3), error = Absent\<rparr>"

definition error_snapshot :: "string \<Rightarrow> snapshot" where
  "error_snapshot msg =
     \<lparr>status = Error, percent = Absent, speed = Absent, eta = Absent, error = Val msg\<rparr>"

definition completed_snapshot :: snapshot where
  "completed_snapshot =
     \<lparr>status = Completed, percent = Val 100, speed = Absent, eta = Absent, error = Absent\<rparr>"

datatype effect =
    MkdirSync string
  | Spawn string "string list"
  | ProgressSet string snapshot

datatype promise = Pending | Resolved | Rejected string

text \<open>
  The state: the module's \<open>progressMap\<close>, the paths that exist on disk, the error (if any)
  that creating a directory at a path raises, the log of effects, and the two variables of one
  \<open>runYtDlp\<close> call (\<open>stderr\<close> and the promise).
\<close>

record state =
  progressMap :: "string \<rightharpoonup> snapshot"
  disk :: "string set"
  mkdir_fault :: "string \<rightharpoonup> string"
  effects :: "effect list"
  stderr :: string
  promise :: promise

definition progressMap_set :: "string \<Rightarrow> snapshot \<Rightarrow> state \<Rightarrow> state" where
  "progressMap_set i v st =
     st\<lparr>progressMap := (progressMap st)(i \<mapsto> v), effects := effects st @ [ProgressSet i v]\<rparr>"

text \<open>Settling a promise that is already settled changes nothing.\<close>

definition resolve :: "state \<Rightarrow> state" where
  "resolve st = (if promise st = Pending then st\<lparr>promise := Resolved\<rparr> else st)"

definition reject :: "string \<Rightarrow> state \<Rightarrow> state" where
  "reject e st = (if promise st = Pending then st\<lparr>promise := Rejected e\<rparr> else st)"

subsection \<open>The job runner\<close>

text \<open>
  What the child process delivers: a chunk on standard output, a chunk on standard error, the
  \<open>error\<close> event with the error's message, and the \<open>close\<close> event with the exit code
  (\<open>None\<close> is \<open>null\<close>). The disk is read only at \<open>close\<close> (\<open>fs.existsSync\<close>, line 59),
  so the \<open>close\<close> event also carries what happened to the disk while the process ran: the
  paths that appeared and the paths that disappeared.
\<close>

datatype event =
    StdoutData string
  | StderrData string
  | ErrorEvent string
  | CloseEvent "int option" "string set" "string set"

text \<open>
  The parser of one chunk of standard output (lines 36 to 45): the snapshot to store, if the
  chunk matches.
\<close>

definition parse_line :: "string \<Rightarrow> snapshot option" where
  "parse_line line = map_option downloading_snapshot (search progress_re line)"

text \<open>
  The four handlers that \<open>runYtDlp\<close> registers: for data on \<open>stdout\<close> (lines 35 to 47), for
  data on \<open>stderr\<close> (lines 49 to 51), for \<open>error\<close> (lines 53 to 56) and for \<open>close\<close>
  (lines 58 to 67). \<open>i\<close> is the id and \<open>outputPath\<close> the path of the call.
\<close>

definition on_stdout :: "string \<Rightarrow> string \<Rightarrow> state \<Rightarrow> state" where
  "on_stdout i line st =
     (case parse_line line of
        None \<Rightarrow> st
      | Some v \<Rightarrow> progressMap_set i v st)"

definition on_stderr :: "string \<Rightarrow> state \<Rightarrow> state" where
  "on_stderr d st = st\<lparr>stderr := stderr st @ d\<rparr>"

definition on_error :: "string \<Rightarrow> string \<Rightarrow> state \<Rightarrow> state" where
  "on_error i msg st = reject msg (progressMap_set i (error_snapshot msg) st)"

definition exit_message :: "string \<Rightarrow> int option \<Rightarrow> string" where
  "exit_message err code =
     (if err \<noteq> [] then err else ''yt-dlp exited with code '' @ string_of_code code)"

definition on_close :: "string \<Rightarrow> string \<Rightarrow> int option \<Rightarrow> string set \<Rightarrow> string set
    \<Rightarrow> state \<Rightarrow> state" where
  "on_close outputPath i code created removed st =
     (let st1 = st\<lparr>disk := (disk st \<union> created) - removed\<rparr>
      in if code = Some 0 \<and> outputPath \<in> disk st1
         then resolve (progressMap_set i completed_snapshot st1)
         else reject (exit_message (stderr st1) code)
                (progressMap_set i (error_snapshot (exit_message (stderr st1) code)) st1))"

fun handle :: "string \<Rightarrow> string \<Rightarrow> state \<Rightarrow> event \<Rightarrow> state" where
  "handle outputPath i st (StdoutData d) = on_stdout i d st"
| "handle outputPath i st (StderrData d) = on_stderr d st"
| "handle outputPath i st (ErrorEvent msg) = on_error i msg st"
| "handle outputPath i st (CloseEvent code created removed) =
     on_close outputPath i code created removed st"

text \<open>The synchronous part of \<open>runYtDlp\<close>: spawn, an empty \<open>stderr\<close>, the first snapshot.\<close>

definition launch :: "string list \<Rightarrow> string \<Rightarrow> state \<Rightarrow> state" where
  "launch args i st =
     progressMap_set i starting_snapshot
       (st\<lparr>effects := effects st @ [Spawn ''yt-dlp'' args], stderr := [], promise := Pending\<rparr>)"

text \<open>
  One call of \<open>runYtDlp\<close> together with the events that its child delivers, in their order.
\<close>

definition runYtDlp :: "string list \<Rightarrow> string \<Rightarrow> string \<Rightarrow> event list \<Rightarrow> state \<Rightarrow> state" where
  "runYtDlp args outputPath i evs st = foldl (handle outputPath i) (launch args i st) evs"

subsection \<open>The routes\<close>

text \<open>
  \<open>isValidYouTubeUrl\<close> tests \<^verbatim>\<open>/^(https?:\/\/)?(www\.)?(youtube\.com|youtu\.be)\//\<close>: the
  text starts with one of the words of that pattern.
\<close>

definition url_prefixes :: "string list" where
  "url_prefixes =
     [s @ w @ h @ ''/''.
        s \<leftarrow> [''http://'', ''https://'', []],
        w \<leftarrow> [''www.'', []],
        h \<leftarrow> [''youtube.com'', ''youtu.be'']]"

definition isValidYouTubeUrl :: "string \<Rightarrow> bool" where
  "isValidYouTubeUrl u = list_ex (\<lambda>p. prefix p u) url_prefixes"

text \<open>
  The request body. A key that the client left out is \<open>None\<close> (\<open>undefined\<close>); the texts are
  strings and \<open>audioOnly\<close> is a boolean, as the routes expect them.
\<close>

record body =
  url :: "string option"
  quality :: "string option"
  format :: "string option"
  startTime :: "string option"
  endTime :: "string option"
  audioOnly :: "bool option"

record env =
  DOWNLOAD_DIR :: string
  path_join :: "string \<Rightarrow> string \<Rightarrow> string"

text \<open>A default of the destructuring pattern applies to \<open>undefined\<close> only.\<close>

definition default :: "'a option \<Rightarrow> 'a \<Rightarrow> 'a" where
  "default x d = (case x of None \<Rightarrow> d | Some v \<Rightarrow> v)"

text \<open>\<open>undefined\<close> and the empty string are falsy; \<open>or_else x d\<close> is \<open>x || d\<close>.\<close>

definition truthy :: "string option \<Rightarrow> bool" where
  "truthy x = (case x of None \<Rightarrow> False | Some s \<Rightarrow> s \<noteq> [])"

definition or_else :: "string option \<Rightarrow> string \<Rightarrow> string" where
  "or_else x d = (case x of None \<Rightarrow> d | Some s \<Rightarrow> if s \<noteq> [] then s else d)"

text \<open>\<open>quality.replace(/p/i, '')\<close>: the first \<open>p\<close> or \<open>P\<close> is removed.\<close>

fun replace_p :: "string \<Rightarrow> string" where
  "replace_p [] = []"
| "replace_p (c # s) = (if c = CHR ''p'' \<or> c = CHR ''P'' then s else c # replace_p s)"

definition format_selector :: "string \<Rightarrow> string \<Rightarrow> string" where
  "format_selector q f =
     ''bestvideo[height<='' @ replace_p q @ '']+bestaudio/best[ext='' @ f @ '']''"

definition video_args :: "string \<Rightarrow> string \<Rightarrow> string \<Rightarrow> string option \<Rightarrow> string option
    \<Rightarrow> string \<Rightarrow> string list" where
  "video_args u q f st_time en_time outputPath =
     [u, ''-f'', format_selector q f, ''-o'', outputPath, ''--no-playlist'']
     @ (if truthy st_time \<or> truthy en_time
        then [''--download-sections'',
              ''*'' @ or_else st_time ''0'' @ ''-'' @ or_else en_time ''inf'']
        else [])"

definition playlist_args :: "string \<Rightarrow> string \<Rightarrow> string \<Rightarrow> bool \<Rightarrow> string \<Rightarrow> string list" where
  "playlist_args u q f audio template =
     (if audio then [u, ''-x'', ''--audio-format'', f, ''-o'', template]
      else [u, ''-f'', format_selector q f, ''-o'', template])"

datatype response =
    Status400 string
  | Status404 string
  | JsonDownload string string
  | JsonProgress snapshot
  | NextError string
  | NoResponse

text \<open>\<open>.then(() => res.json(...)).catch((error) => next(error))\<close>\<close>

definition respond :: "promise \<Rightarrow> response \<Rightarrow> response" where
  "respond p ok = (case p of Pending \<Rightarrow> NoResponse | Resolved \<Rightarrow> ok | Rejected e \<Rightarrow> NextError e)"

text \<open>\<open>router.post('/download/video')\<close>; \<open>new_id\<close> is the value of \<open>uuidv4()\<close>.\<close>

definition post_download_video :: "env \<Rightarrow> body \<Rightarrow> string \<Rightarrow> event list \<Rightarrow> state
    \<Rightarrow> response \<times> state" where
  "post_download_video e b new_id evs st =
     (let q = default (quality b) ''720p''; f = default (format b) ''mp4''
      in case url b of
           None \<Rightarrow> (Status400 ''Invalid or missing YouTube URL'', st)
         | Some u \<Rightarrow>
             if u = [] \<or> \<not> isValidYouTubeUrl u
             then (Status400 ''Invalid or missing YouTube URL'', st)
             else
               let filename = new_id @ ''.'' @ f;
                   outputPath = path_join e (DOWNLOAD_DIR e) filename;
                   args = video_args u q f (startTime b) (endTime b) outputPath;
                   st' = runYtDlp args outputPath new_id evs st
               in (respond (promise st') (JsonDownload new_id (''/downloads/'' @ filename)), st'))"

text \<open>\<open>fs.mkdirSync(folder, { recursive: true })\<close>: it throws, or the folder exists afterwards.\<close>

definition mkdirSync :: "string \<Rightarrow> state \<Rightarrow> string + state" where
  "mkdirSync p st =
     (case mkdir_fault st p of
        Some err \<Rightarrow> Inl err
      | None \<Rightarrow> Inr (st\<lparr>disk := insert p (disk st), effects := effects st @ [MkdirSync p]\<rparr>))"

text \<open>\<open>router.post('/download/playlist')\<close>\<close>

definition post_download_playlist :: "env \<Rightarrow> body \<Rightarrow> string \<Rightarrow> event list \<Rightarrow> state
    \<Rightarrow> response \<times> state" where
  "post_download_playlist e b new_id evs st =
     (let q = default (quality b) ''720p''; f = default (format b) ''mp4'';
          audio = default (audioOnly b) False
      in case url b of
           None \<Rightarrow> (Status400 ''Invalid or missing YouTube URL'', st)
         | Some u \<Rightarrow>
             if u = [] \<or> \<not> isValidYouTubeUrl u
             then (Status400 ''Invalid or missing YouTube URL'', st)
             else
               let folder = path_join e (DOWNLOAD_DIR e) new_id
               in case mkdirSync folder st of
                    Inl err \<Rightarrow> (NextError err, st)
                  | Inr st1 \<Rightarrow>
                      let template = path_join e folder ''%(playlist_index)s-%(id)s.%(ext)s'';
                          args = playlist_args u q f audio template;
                          st' = runYtDlp args folder new_id evs st1
                      in (respond (promise st')
                            (JsonDownload new_id (''/downloads/'' @ new_id @ ''/'')), st'))"

text \<open>\<open>router.get('/download/progress/:id')\<close>\<close>

definition get_download_progress :: "string \<Rightarrow> state \<Rightarrow> response" where
  "get_download_progress i st =
     (case progressMap st i of
        None \<Rightarrow> Status404 ''Unknown download id''
      | Some p \<Rightarrow> JsonProgress p)"

subsection \<open>Event sequences and what a run writes\<close>

text \<open>
  The events of one child process, as Node's \<open>child_process\<close> documents them: output chunks
  arrive while the process runs; \<open>close\<close> is emitted once, after the process has ended and its
  streams are closed, so nothing follows it; \<open>error\<close> is emitted when the process could not be
  spawned (the routes neither kill the child nor send it messages, the other causes of that
  event), and Node then still emits \<open>close\<close>, with the negative error number as the exit code
  (\<open>-2\<close> for \<open>ENOENT\<close>). \<open>finale\<close> recognises what may follow the output chunks; a
  sequence that stops earlier is a run that is still going on.
\<close>

fun is_output :: "event \<Rightarrow> bool" where
  "is_output (StdoutData d) = True"
| "is_output (StderrData d) = True"
| "is_output (ErrorEvent m) = False"
| "is_output (CloseEvent c cr rm) = False"

fun finale :: "event list \<Rightarrow> bool" where
  "finale [] = True"
| "finale [CloseEvent c cr rm] = True"
| "finale [ErrorEvent m] = True"
| "finale [ErrorEvent m, CloseEvent (Some n) cr rm] = (n < 0)"
| "finale es = False"

definition wf_events :: "event list \<Rightarrow> bool" where
  "wf_events evs = finale (dropWhile is_output evs)"

text \<open>
  The text that the \<open>stderr\<close> chunks of a sequence add up to, and the snapshots that its
  \<open>stdout\<close> chunks give.
\<close>

fun stderr_text :: "event list \<Rightarrow> string" where
  "stderr_text [] = []"
| "stderr_text (StderrData d # es) = d @ stderr_text es"
| "stderr_text (e # es) = stderr_text es"

fun progress_updates :: "event list \<Rightarrow> snapshot list" where
  "progress_updates [] = []"
| "progress_updates (StdoutData d # es) =
     (case parse_line d of None \<Rightarrow> progress_updates es | Some v \<Rightarrow> v # progress_updates es)"
| "progress_updates (e # es) = progress_updates es"

text \<open>The snapshots that were set for the job \<open>i\<close>, in the order of the calls.\<close>

fun written :: "string \<Rightarrow> effect list \<Rightarrow> snapshot list" where
  "written i [] = []"
| "written i (ProgressSet j v # es) = (if j = i then v # written i es else written i es)"
| "written i (e # es) = written i es"

text \<open>The effects between an earlier state and a later one.\<close>

definition effects_since :: "state \<Rightarrow> state \<Rightarrow> effect list" where
  "effects_since st st' = drop (length (effects st)) (effects st')"

text \<open>The state after the module is loaded: an empty \<open>progressMap\<close>, no effect yet.\<close>

definition initial_state :: "string set \<Rightarrow> (string \<rightharpoonup> string) \<Rightarrow> state" where
  "initial_state d mf =
     \<lparr>progressMap = Map.empty, disk = d, mkdir_fault = mf, effects = [], stderr = [],
      promise = Pending\<rparr>"

text \<open>
  An environment for examples: on a POSIX system \<open>path.join a b\<close> is \<open>a/b\<close> when
  \<open>a\<close> is in normal form and \<open>b\<close> is a plain name.
\<close>

definition posix_env :: env where
  "posix_env = \<lparr>DOWNLOAD_DIR = ''/srv/downloads'', path_join = (\<lambda>a b. a @ ''/'' @ b)\<rparr>"

text \<open>
  The order of statuses \<open>starting\<close>, then \<open>downloading\<close> any number of times, then
  \<open>completed\<close> or \<open>error\<close>; after a terminal status only that same status may be written.
\<close>

fun settled_as :: "status \<Rightarrow> status list \<Rightarrow> bool" where
  "settled_as t [] = True"
| "settled_as t (x # xs) = (x = t \<and> settled_as t xs)"

fun in_progress :: "status list \<Rightarrow> bool" where
  "in_progress [] = True"
| "in_progress (Starting # xs) = False"
| "in_progress (Downloading # xs) = in_progress xs"
| "in_progress (Completed # xs) = settled_as Completed xs"
| "in_progress (Error # xs) = settled_as Error xs"

fun lifecycle :: "status list \<Rightarrow> bool" where
  "lifecycle [] = False"
| "lifecycle (x # xs) = (x = Starting \<and> in_progress xs)"

text \<open>
  The percent of a snapshot, by status: 0 when starting, a value that is not negative when
  downloading, 100 when completed, and no percent in an error snapshot.
\<close>

definition percent_rule :: "snapshot \<Rightarrow> bool" where
  "percent_rule v =
     (case status v of
        Starting \<Rightarrow> percent v = Val 0
      | Downloading \<Rightarrow> (case percent v of Val p \<Rightarrow> 0 \<le> p | _ \<Rightarrow> False)
      | Completed \<Rightarrow> percent v = Val 100
      | Error \<Rightarrow> percent v = Absent)"

text \<open>The argument lists of the processes that were spawned.\<close>

fun spawned :: "effect list \<Rightarrow> string list list" where
  "spawned [] = []"
| "spawned (Spawn c args # es) = args # spawned es"
| "spawned (e # es) = spawned es"

text \<open>\<open>adjacent a b xs\<close>: the option \<open>a\<close> with the value \<open>b\<close> occurs in the argument list.\<close>

fun adjacent :: "'a \<Rightarrow> 'a \<Rightarrow> 'a list \<Rightarrow> bool" where
  "adjacent a b (x # y # r) = ((x = a \<and> y = b) \<or> adjacent a b (y # r))"
| "adjacent a b r = False"

text \<open>
  Everything the module does to the state: a job is launched, an event of a job is handled, a
  directory is made (a failure leaves the state as it is), and, between the events of
  different jobs, the variables \<open>stderr\<close> and the promise are those of another call.
\<close>

datatype action =
    Launch "string list" string
  | Deliver string string event
  | MakeDir string
  | OtherJob string promise

fun act :: "state \<Rightarrow> action \<Rightarrow> state" where
  "act st (Launch args i) = launch args i st"
| "act st (Deliver outputPath i ev) = handle outputPath i st ev"
| "act st (MakeDir p) = (case mkdirSync p st of Inl err \<Rightarrow> st | Inr st' \<Rightarrow> st')"
| "act st (OtherJob err pr) = st\<lparr>stderr := err, promise := pr\<rparr>"

text \<open>The snapshot that was set last for the job \<open>i\<close>, if any was.\<close>

definition latest :: "string \<Rightarrow> effect list \<Rightarrow> snapshot option" where
  "latest i es = (if written i es = [] then None else Some (last (written i es)))"

definition store_agrees :: "state \<Rightarrow> bool" where
  "store_agrees st = (\<forall>j. progressMap st j = latest j (effects st))"


section \<open>Properties\<close>

subsection \<open>Auxiliary facts\<close>

declare decimal.simps [simp del]

lemma stderr_text_append: "stderr_text (xs @ ys) = stderr_text xs @ stderr_text ys"
  by (induction xs rule: stderr_text.induct) auto

lemma progress_updates_append:
  "progress_updates (xs @ ys) = progress_updates xs @ progress_updates ys"
  by (induction xs rule: progress_updates.induct) (auto split: option.splits)

lemma written_append: "written i (xs @ ys) = written i xs @ written i ys"
  by (induction xs rule: written.induct) auto

lemma written_map_set: "written i (map (ProgressSet i) vs) = vs"
  by (induction vs) auto

lemma handle_output_effects:
  "is_output ev \<Longrightarrow>
   effects (handle op i st ev) = effects st @ map (ProgressSet i) (progress_updates [ev])"
  by (cases ev) (auto simp: on_stdout_def on_stderr_def progressMap_set_def split: option.splits)

lemma handle_output_stderr:
  "is_output ev \<Longrightarrow> stderr (handle op i st ev) = stderr st @ stderr_text [ev]"
  by (cases ev) (auto simp: on_stdout_def on_stderr_def progressMap_set_def split: option.splits)

lemma handle_output_promise:
  "is_output ev \<Longrightarrow> promise (handle op i st ev) = promise st"
  by (cases ev) (auto simp: on_stdout_def on_stderr_def progressMap_set_def split: option.splits)

lemma handle_output_disk:
  "is_output ev \<Longrightarrow> disk (handle op i st ev) = disk st"
  by (cases ev) (auto simp: on_stdout_def on_stderr_def progressMap_set_def split: option.splits)

lemma outputs_effects:
  "list_all is_output outs \<Longrightarrow>
   effects (foldl (handle op i) st outs) = effects st @ map (ProgressSet i) (progress_updates outs)"
  by (induction outs rule: rev_induct)
     (simp_all add: handle_output_effects progress_updates_append)

lemma outputs_stderr:
  "list_all is_output outs \<Longrightarrow>
   stderr (foldl (handle op i) st outs) = stderr st @ stderr_text outs"
  by (induction outs rule: rev_induct)
     (simp_all add: handle_output_stderr stderr_text_append)

lemma outputs_promise:
  "list_all is_output outs \<Longrightarrow> promise (foldl (handle op i) st outs) = promise st"
  by (induction outs rule: rev_induct) (simp_all add: handle_output_promise)

lemma outputs_disk:
  "list_all is_output outs \<Longrightarrow> disk (foldl (handle op i) st outs) = disk st"
  by (induction outs rule: rev_induct) (simp_all add: handle_output_disk)

lemma finale_snoc_close:
  assumes "finale (es @ [CloseEvent c cr rm])"
  shows "es = [] \<or> (\<exists>m n. es = [ErrorEvent m] \<and> c = Some n \<and> n < 0)"
proof (cases es)
  case Nil
  then show ?thesis by simp
next
  case (Cons e es')
  show ?thesis
  proof (cases es')
    case Nil
    with Cons assms show ?thesis
      by (cases e; cases c) auto
  next
    case (Cons e' es'')
    with \<open>es = e # es'\<close> assms show ?thesis
      by (cases e; cases e'; cases es'') auto
  qed
qed

lemma outputs_taken: "list_all is_output (takeWhile is_output evs)"
  by (induction evs) auto

lemma wf_close_shape:
  assumes "wf_events (evs @ [CloseEvent c cr rm])"
  shows "list_all is_output evs \<or>
   (\<exists>outs m n. evs = outs @ [ErrorEvent m] \<and> list_all is_output outs \<and> c = Some n \<and> n < 0)"
proof (cases "list_all is_output evs")
  case True
  then show ?thesis by simp
next
  case False
  then obtain x where x: "x \<in> set evs" "\<not> is_output x"
    by (auto simp: list_all_iff)
  then have "dropWhile is_output (evs @ [CloseEvent c cr rm])
      = dropWhile is_output evs @ [CloseEvent c cr rm]"
    by (simp add: dropWhile_append1)
  with assms have "finale (dropWhile is_output evs @ [CloseEvent c cr rm])"
    by (simp add: wf_events_def)
  from finale_snoc_close [OF this] x obtain m n where
    rest: "dropWhile is_output evs = [ErrorEvent m]" and c: "c = Some n" "n < 0"
    by (auto simp: dropWhile_eq_Nil_conv)
  have "evs = takeWhile is_output evs @ [ErrorEvent m]"
    using takeWhile_dropWhile_id [of is_output evs] rest by simp
  with outputs_taken [of evs] c show ?thesis
    by blast
qed

lemma launch_fields:
  "effects (launch args i st) = effects st @ [Spawn ''yt-dlp'' args, ProgressSet i starting_snapshot]"
  "stderr (launch args i st) = []"
  "promise (launch args i st) = Pending"
  "disk (launch args i st) = disk st"
  "progressMap (launch args i st) i = Some starting_snapshot"
  by (simp_all add: launch_def progressMap_set_def)

lemma on_close_store:
  "progressMap (on_close op i code cr rm st) i =
     Some (if code = Some 0 \<and> op \<in> (disk st \<union> cr) - rm then completed_snapshot
           else error_snapshot (exit_message (stderr st) code))"
  by (auto simp: on_close_def Let_def resolve_def reject_def progressMap_set_def)

lemma on_close_promise:
  "promise (on_close op i code cr rm st) =
     (if promise st \<noteq> Pending then promise st
      else if code = Some 0 \<and> op \<in> (disk st \<union> cr) - rm then Resolved
      else Rejected (exit_message (stderr st) code))"
  by (auto simp: on_close_def Let_def resolve_def reject_def progressMap_set_def)

lemma on_close_effects:
  "effects (on_close op i code cr rm st) = effects st @
     [ProgressSet i (if code = Some 0 \<and> op \<in> (disk st \<union> cr) - rm then completed_snapshot
           else error_snapshot (exit_message (stderr st) code))]"
  by (auto simp: on_close_def Let_def resolve_def reject_def progressMap_set_def)

lemma on_error_fields:
  "progressMap (on_error i m st) i = Some (error_snapshot m)"
  "promise (on_error i m st) = (if promise st = Pending then Rejected m else promise st)"
  "effects (on_error i m st) = effects st @ [ProgressSet i (error_snapshot m)]"
  "stderr (on_error i m st) = stderr st"
  "disk (on_error i m st) = disk st"
  by (simp_all add: on_error_def reject_def progressMap_set_def)

lemma run_needs_char:
  "run p s os cs = Some r \<Longrightarrow> Once [Ch x] \<in> set p \<Longrightarrow> x \<in> set s"
  by (induction p s os cs rule: run.induct)
     (auto split: if_splits option.splits simp: class_matches_def)

lemma search_needs_char:
  "search p s = Some r \<Longrightarrow> Once [Ch x] \<in> set p \<Longrightarrow> x \<in> set s"
  by (induction s) (auto split: option.splits dest: run_needs_char)

lemma percent_in_progress_re: "Once [Ch CHR ''%''] \<in> set progress_re"
  by (simp add: progress_re_def)

lemmas char_classes =
  class_matches_def is_digit_def is_word_def is_space_def is_line_terminator_def

lemma search_sample:
  "search progress_re ''[download]  12.3% of 10.00MiB at 1.23MiB/s ETA 00:10''
     = Some [(3, ''00:10''), (2, ''1.23MiB/s''), (1, ''12.3'')]"
  by (simp add: progress_re_def lit_def char_classes)

text \<open>Every match of \<open>progress_re\<close> has its three groups, so \<open>group\<close> never falls back.\<close>

lemma run_captures:
  "run p s os cs = Some r \<Longrightarrow> captured p (fst ` set os) \<union> fst ` set cs \<subseteq> fst ` set r"
proof (induction p s os cs rule: run.induct)
  case (11 n p s os cs)
  then show ?case
    by (auto split: option.splits simp: map_of_eq_None_iff)
qed (auto split: if_splits option.splits)

lemma run_captures_start:
  "run p s [] [] = Some r \<Longrightarrow> captured p {} \<subseteq> fst ` set r"
  using run_captures [of p s "[]" "[]" r] by simp

lemma search_captures:
  "search p s = Some r \<Longrightarrow> captured p {} \<subseteq> fst ` set r"
  by (induction s) (auto split: option.splits dest: run_captures_start)

lemma progress_re_captured: "captured progress_re {} = {1, 2, 3}"
  by (auto simp: progress_re_def lit_def)

lemma match_has_groups:
  assumes "search progress_re line = Some m"
  shows "map_of m 1 \<noteq> None \<and> map_of m 2 \<noteq> None \<and> map_of m 3 \<noteq> None"
  using search_captures [OF assms] by (auto simp: progress_re_captured map_of_eq_None_iff)

lemma parse_line_sample:
  "parse_line ''[download]  12.3% of 10.00MiB at 1.23MiB/s ETA 00:10''
     = Some \<lparr>status = Downloading, percent = Val (123 / 10), speed = Val ''1.23MiB/s'',
             eta = Val ''00:10'', error = Absent\<rparr>"
  unfolding parse_line_def search_sample
  by (simp add: downloading_snapshot_def group_def Number_def digits_value_def
      digit_value_def is_digit_def)

lemma parse_line_needs_percent: "CHR ''%'' \<notin> set line \<Longrightarrow> parse_line line = None"
proof (cases "search progress_re line")
  case None
  then show ?thesis by (simp add: parse_line_def)
next
  case (Some r)
  assume "CHR ''%'' \<notin> set line"
  with search_needs_char [OF Some percent_in_progress_re] show ?thesis
    by simp
qed

subsection \<open>What a run writes\<close>

lemma parse_line_status: "parse_line d = Some v \<Longrightarrow> status v = Downloading"
  by (auto simp: parse_line_def downloading_snapshot_def)

lemma progress_updates_status:
  "map status (progress_updates evs) = replicate (length (progress_updates evs)) Downloading"
  by (induction evs rule: progress_updates.induct)
     (auto split: option.splits dest: parse_line_status)

lemma in_progress_downloading:
  "in_progress (replicate k Downloading @ ts) = in_progress ts"
  by (induction k) auto

lemma run_outputs_effects:
  "list_all is_output outs \<Longrightarrow>
   effects (runYtDlp args op i outs st) =
     effects st @ Spawn ''yt-dlp'' args # ProgressSet i starting_snapshot
       # map (ProgressSet i) (progress_updates outs)"
  by (simp add: runYtDlp_def outputs_effects launch_fields)

lemma runYtDlp_append:
  "runYtDlp args op i (xs @ ys) st = foldl (handle op i) (runYtDlp args op i xs st) ys"
  by (simp add: runYtDlp_def)

lemma run_written:
  assumes "wf_events evs"
  shows "\<exists>k ts. map status (written i (effects_since st (runYtDlp args op i evs st)))
           = Starting # replicate k Downloading @ ts
         \<and> (ts = [] \<or> ts = [Completed] \<or> ts = [Error] \<or> ts = [Error, Error])
         \<and> (ts = [] \<longleftrightarrow> list_all is_output evs)"
proof -
  define outs where "outs = takeWhile is_output evs"
  define rest where "rest = dropWhile is_output evs"
  have evs: "evs = outs @ rest" and outs: "list_all is_output outs" and rest: "finale rest"
    using assms by (simp_all add: outs_def rest_def wf_events_def outputs_taken)
  let ?k = "length (progress_updates outs)"
  let ?base = "runYtDlp args op i outs st"
  let ?ws = "map status (written i (effects_since st (runYtDlp args op i evs st)))"
  have base: "effects ?base = effects st @ Spawn ''yt-dlp'' args # ProgressSet i starting_snapshot
       # map (ProgressSet i) (progress_updates outs)"
    by (rule run_outputs_effects [OF outs])
  have "\<exists>ts. ?ws = Starting # replicate ?k Downloading @ ts
         \<and> (ts = [] \<or> ts = [Completed] \<or> ts = [Error] \<or> ts = [Error, Error])
         \<and> (ts = [] \<longleftrightarrow> list_all is_output evs)"
    using rest
  proof (cases rest rule: finale.cases)
    case 1
    have "?ws = Starting # replicate ?k Downloading @ []"
      using base
      by (simp add: evs 1 effects_since_def written_append written_map_set
          progress_updates_status starting_snapshot_def)
    moreover have "list_all is_output evs"
      using outs by (simp add: evs 1)
    ultimately show ?thesis by (intro exI[of _ "[]"]) simp
  next
    case (2 c cr rm)
    let ?t = "if c = Some 0 \<and> op \<in> (disk ?base \<union> cr) - rm then Completed else Error"
    have "?ws = Starting # replicate ?k Downloading @ [?t]"
      using base
      by (simp add: evs 2 runYtDlp_append on_close_effects effects_since_def written_append
          written_map_set progress_updates_status starting_snapshot_def completed_snapshot_def
          error_snapshot_def)
    moreover have "\<not> list_all is_output evs"
      by (simp add: evs 2)
    ultimately show ?thesis by (intro exI[of _ "[?t]"]) simp
  next
    case (3 m)
    have "?ws = Starting # replicate ?k Downloading @ [Error]"
      using base
      by (simp add: evs 3 runYtDlp_append on_error_fields effects_since_def written_append
          written_map_set progress_updates_status starting_snapshot_def error_snapshot_def)
    moreover have "\<not> list_all is_output evs"
      by (simp add: evs 3)
    ultimately show ?thesis by (intro exI[of _ "[Error]"]) simp
  next
    case (4 m n cr rm)
    with rest have neg: "n < 0" by simp
    have "?ws = Starting # replicate ?k Downloading @ [Error, Error]"
      using base neg
      by (simp add: evs 4 runYtDlp_append on_error_fields on_close_effects effects_since_def
          written_append written_map_set progress_updates_status starting_snapshot_def
          error_snapshot_def)
    moreover have "\<not> list_all is_output evs"
      by (simp add: evs 4)
    ultimately show ?thesis by (intro exI[of _ "[Error, Error]"]) simp
  qed (simp_all)
  then show ?thesis by (intro exI[of _ ?k])
qed

lemma Number_nonneg: "0 \<le> Number s"
  by (simp add: Number_def Let_def)

lemma parse_line_rule: "parse_line d = Some v \<Longrightarrow> percent_rule v"
  by (auto simp: parse_line_def downloading_snapshot_def percent_rule_def Number_nonneg)

lemma handle_writes:
  "\<exists>ws. effects (handle op i s ev) = effects s @ map (ProgressSet i) ws
     \<and> list_all percent_rule ws
     \<and> progressMap (handle op i s ev) i = (if ws = [] then progressMap s i else Some (last ws))"
proof (cases ev)
  case (StdoutData d)
  show ?thesis
  proof (cases "parse_line d")
    case None
    with StdoutData show ?thesis
      by (intro exI[of _ "[]"]) (simp add: on_stdout_def)
  next
    case (Some v)
    with StdoutData parse_line_rule [OF Some] show ?thesis
      by (intro exI[of _ "[v]"]) (simp add: on_stdout_def progressMap_set_def)
  qed
next
  case (StderrData d)
  then show ?thesis
    by (intro exI[of _ "[]"]) (simp add: on_stderr_def)
next
  case (ErrorEvent m)
  then show ?thesis
    by (intro exI[of _ "[error_snapshot m]"])
       (simp add: on_error_fields percent_rule_def error_snapshot_def)
next
  case (CloseEvent c cr rm)
  then show ?thesis
    by (intro exI[of _ "[if c = Some 0 \<and> op \<in> (disk s \<union> cr) - rm then completed_snapshot
           else error_snapshot (exit_message (stderr s) c)]"])
       (simp add: on_close_effects on_close_store percent_rule_def error_snapshot_def
          completed_snapshot_def)
qed

lemma run_writes:
  "\<exists>ws. effects (runYtDlp args op i evs st)
           = effects st @ Spawn ''yt-dlp'' args # map (ProgressSet i) ws
     \<and> ws \<noteq> [] \<and> list_all percent_rule ws
     \<and> progressMap (runYtDlp args op i evs st) i = Some (last ws)"
proof (induction evs rule: rev_induct)
  case Nil
  show ?case
    by (intro exI[of _ "[starting_snapshot]"])
       (simp add: runYtDlp_def launch_fields percent_rule_def starting_snapshot_def)
next
  case (snoc ev evs)
  then obtain ws where ws:
    "effects (runYtDlp args op i evs st)
       = effects st @ Spawn ''yt-dlp'' args # map (ProgressSet i) ws"
    "ws \<noteq> []" "list_all percent_rule ws"
    "progressMap (runYtDlp args op i evs st) i = Some (last ws)"
    by blast
  from handle_writes [of op i "runYtDlp args op i evs st" ev] obtain us where us:
    "effects (handle op i (runYtDlp args op i evs st) ev)
       = effects (runYtDlp args op i evs st) @ map (ProgressSet i) us"
    "list_all percent_rule us"
    "progressMap (handle op i (runYtDlp args op i evs st) ev) i
       = (if us = [] then progressMap (runYtDlp args op i evs st) i else Some (last us))"
    by blast
  show ?case
    using ws us
    by (intro exI[of _ "ws @ us"]) (simp add: runYtDlp_append)
qed

lemma run_written_store:
  "written i (effects_since st (runYtDlp args op i evs st)) \<noteq> []
   \<and> list_all percent_rule (written i (effects_since st (runYtDlp args op i evs st)))
   \<and> progressMap (runYtDlp args op i evs st) i
       = Some (last (written i (effects_since st (runYtDlp args op i evs st))))"
proof -
  from run_writes [of args op i evs st] obtain ws where ws:
    "effects (runYtDlp args op i evs st)
       = effects st @ Spawn ''yt-dlp'' args # map (ProgressSet i) ws"
    "ws \<noteq> []" "list_all percent_rule ws"
    "progressMap (runYtDlp args op i evs st) i = Some (last ws)"
    by blast
  then have "written i (effects_since st (runYtDlp args op i evs st)) = ws"
    by (simp add: effects_since_def written_map_set)
  with ws show ?thesis by simp
qed

lemma spawned_sets: "spawned (map (ProgressSet i) ws) = []"
  by (induction ws) auto

lemma run_spawned:
  "spawned (effects_since st (runYtDlp args op i evs st)) = [args]"
proof -
  from run_writes [of args op i evs st] obtain ws where
    "effects (runYtDlp args op i evs st)
       = effects st @ Spawn ''yt-dlp'' args # map (ProgressSet i) ws"
    by blast
  then show ?thesis
    by (simp add: effects_since_def spawned_sets)
qed

lemma run_effects_head:
  "\<exists>rest. effects (runYtDlp args op i evs st) = effects st @ Spawn ''yt-dlp'' args # rest"
  using run_writes [of args op i evs st] by blast

subsection \<open>Facts about the routes\<close>

lemma replace_p_quality:
  "CHR ''p'' \<notin> set n \<Longrightarrow> CHR ''P'' \<notin> set n \<Longrightarrow> replace_p (n @ ''p'') = n"
  by (induction n) auto

lemma post_video_valid:
  assumes "url b = Some u" "u \<noteq> []" "isValidYouTubeUrl u"
  shows "snd (post_download_video e b new_id evs st) =
     runYtDlp
       (video_args u (default (quality b) ''720p'') (default (format b) ''mp4'') (startTime b)
          (endTime b) (path_join e (DOWNLOAD_DIR e) (new_id @ ''.'' @ default (format b) ''mp4'')))
       (path_join e (DOWNLOAD_DIR e) (new_id @ ''.'' @ default (format b) ''mp4'')) new_id evs st"
  using assms by (simp add: post_download_video_def Let_def)

lemma selector_not_flag:
  "format_selector q f \<noteq> ''-x''" "format_selector q f \<noteq> ''-o''"
  "format_selector q f \<noteq> ''--audio-format''"
  by (simp_all add: format_selector_def)

lemma valid_url_not_flag: "isValidYouTubeUrl u \<Longrightarrow> u \<noteq> ''-f''"
  by (auto simp: isValidYouTubeUrl_def url_prefixes_def)

lemma post_playlist_valid:
  assumes "url b = Some u" "u \<noteq> []" "isValidYouTubeUrl u"
    and "mkdir_fault st (path_join e (DOWNLOAD_DIR e) new_id) = None"
  shows "post_download_playlist e b new_id evs st =
     (let folder = path_join e (DOWNLOAD_DIR e) new_id;
          st' = runYtDlp
            (playlist_args u (default (quality b) ''720p'') (default (format b) ''mp4'')
               (default (audioOnly b) False)
               (path_join e folder ''%(playlist_index)s-%(id)s.%(ext)s''))
            folder new_id evs
            (st\<lparr>disk := insert folder (disk st), effects := effects st @ [MkdirSync folder]\<rparr>)
      in (respond (promise st') (JsonDownload new_id (''/downloads/'' @ new_id @ ''/'')), st'))"
  using assms by (simp add: post_download_playlist_def Let_def mkdirSync_def)

subsection \<open>Facts about the progress store\<close>

lemma latest_snoc_set:
  "latest j (es @ [ProgressSet i v]) = (if j = i then Some v else latest j es)"
  by (simp add: latest_def written_append)

lemma latest_snoc_other:
  "latest j (es @ [Spawn c a]) = latest j es" "latest j (es @ [MkdirSync p]) = latest j es"
  by (simp_all add: latest_def written_append)

lemma agrees_set: "store_agrees st \<Longrightarrow> store_agrees (progressMap_set i v st)"
  by (simp add: store_agrees_def progressMap_set_def latest_snoc_set)

lemma agrees_fields:
  "store_agrees (st\<lparr>stderr := x\<rparr>) = store_agrees st"
  "store_agrees (st\<lparr>promise := y\<rparr>) = store_agrees st"
  "store_agrees (st\<lparr>disk := z\<rparr>) = store_agrees st"
  by (simp_all add: store_agrees_def)

lemma agrees_settle:
  "store_agrees st \<Longrightarrow> store_agrees (resolve st)"
  "store_agrees st \<Longrightarrow> store_agrees (reject e st)"
  by (simp_all add: resolve_def reject_def agrees_fields)

lemma agrees_handle: "store_agrees st \<Longrightarrow> store_agrees (handle op i st ev)"
  by (cases ev)
     (auto simp: on_stdout_def on_stderr_def on_error_def on_close_def Let_def agrees_fields
        intro!: agrees_settle agrees_set split: option.splits)

lemma agrees_launch: "store_agrees st \<Longrightarrow> store_agrees (launch args i st)"
proof -
  assume a: "store_agrees st"
  have "store_agrees
      (st\<lparr>effects := effects st @ [Spawn ''yt-dlp'' args], stderr := [], promise := Pending\<rparr>)"
    using a by (simp add: store_agrees_def latest_snoc_other)
  then show ?thesis
    unfolding launch_def by (rule agrees_set)
qed

lemma agrees_mkdir: "store_agrees st \<Longrightarrow> mkdirSync p st = Inr st' \<Longrightarrow> store_agrees st'"
  by (auto simp: mkdirSync_def store_agrees_def latest_snoc_other split: option.splits)

lemma agrees_act: "store_agrees st \<Longrightarrow> store_agrees (act st a)"
proof (cases a)
  case (Launch args i)
  assume "store_agrees st"
  with Launch show ?thesis by (simp add: agrees_launch)
next
  case (Deliver op i ev)
  assume "store_agrees st"
  with Deliver show ?thesis by (simp add: agrees_handle)
next
  case (MakeDir p)
  assume "store_agrees st"
  with MakeDir show ?thesis
    by (cases "mkdirSync p st") (simp_all add: agrees_mkdir)
next
  case (OtherJob err pr)
  assume "store_agrees st"
  with OtherJob show ?thesis by (simp add: store_agrees_def)
qed

lemma agrees_initial: "store_agrees (initial_state d mf)"
  by (simp add: store_agrees_def initial_state_def latest_def)

lemma agrees_always: "store_agrees (foldl act (initial_state d mf) acts)"
  by (induction acts rule: rev_induct) (simp_all add: agrees_act agrees_initial)

subsection \<open>The exit of the process\<close>

text \<open>
  Claim C1. When the process exits, the job is settled by the exit code and the presence of the
  expected artifact: with exit code 0 and the artifact on disk the snapshot becomes
  \<open>completed\<close> with percent 100 and the promise resolves; in every other case, exit code 0
  without the artifact included, the snapshot becomes \<open>error\<close> with the accumulated standard-error
  text, or \<open>yt-dlp exited with code N\<close> when that text is empty, and the promise is rejected
  (with that same message when no \<open>error\<close> event came before).
\<close>

theorem close_settles_job:
  assumes "wf_events (evs @ [CloseEvent code created removed])"
  shows "let st' = runYtDlp args outputPath i (evs @ [CloseEvent code created removed]) st;
             msg = (if stderr_text evs \<noteq> [] then stderr_text evs
                    else ''yt-dlp exited with code '' @ string_of_code code)
         in if code = Some 0 \<and> outputPath \<in> (disk st \<union> created) - removed
            then progressMap st' i =
                   Some \<lparr>status = Completed, percent = Val 100, speed = Absent, eta = Absent,
                         error = Absent\<rparr>
                 \<and> promise st' = Resolved
            else progressMap st' i =
                   Some \<lparr>status = Error, percent = Absent, speed = Absent, eta = Absent,
                         error = Val msg\<rparr>
                 \<and> (\<exists>e. promise st' = Rejected e)
                 \<and> (list_all is_output evs \<longrightarrow> promise st' = Rejected msg)"
proof -
  from assms consider
    (plain) "list_all is_output evs"
  | (failed) outs m n where "evs = outs @ [ErrorEvent m]" "list_all is_output outs"
      "code = Some n" "n < 0"
    using wf_close_shape by blast
  then show ?thesis
  proof cases
    case plain
    then show ?thesis
      by (simp add: runYtDlp_def Let_def on_close_store on_close_promise outputs_stderr
          outputs_promise outputs_disk launch_fields exit_message_def completed_snapshot_def
          error_snapshot_def)
  next
    case failed
    then have "\<not> list_all is_output evs" by simp
    with failed show ?thesis
      by (simp add: runYtDlp_def Let_def on_close_store on_close_promise outputs_stderr
          outputs_promise outputs_disk launch_fields exit_message_def completed_snapshot_def
          error_snapshot_def on_error_fields stderr_text_append)
  qed
qed

text \<open>
  Three runs of a job whose artifact is \<open>/srv/downloads/j1.mp4\<close>: exit code 0 with the
  artifact written, exit code 0 without it, and exit code 1 with no standard-error text.
\<close>

theorem close_settles_job_witness:
  "wf_events ([StderrData ''WARNING: slow''] @ [CloseEvent (Some 0) {''/srv/downloads/j1.mp4''} {}])
   \<and> progressMap (runYtDlp [] ''/srv/downloads/j1.mp4'' ''j1''
        ([StderrData ''WARNING: slow''] @ [CloseEvent (Some 0) {''/srv/downloads/j1.mp4''} {}])
        (initial_state {} Map.empty)) ''j1''
      = Some \<lparr>status = Completed, percent = Val 100, speed = Absent, eta = Absent,
              error = Absent\<rparr>
   \<and> progressMap (runYtDlp [] ''/srv/downloads/j1.mp4'' ''j1''
        ([StderrData ''WARNING: slow''] @ [CloseEvent (Some 0) {} {}])
        (initial_state {} Map.empty)) ''j1''
      = Some \<lparr>status = Error, percent = Absent, speed = Absent, eta = Absent,
              error = Val ''WARNING: slow''\<rparr>
   \<and> promise (runYtDlp [] ''/srv/downloads/j1.mp4'' ''j1''
        ([StderrData ''WARNING: slow''] @ [CloseEvent (Some 0) {} {}])
        (initial_state {} Map.empty))
      = Rejected ''WARNING: slow''
   \<and> progressMap (runYtDlp [] ''/srv/downloads/j1.mp4'' ''j1''
        ([] @ [CloseEvent (Some 1) {} {}]) (initial_state {} Map.empty)) ''j1''
      = Some \<lparr>status = Error, percent = Absent, speed = Absent, eta = Absent,
              error = Val ''yt-dlp exited with code 1''\<rparr>"
  using
    close_settles_job [of "[StderrData ''WARNING: slow'']" "Some 0" "{''/srv/downloads/j1.mp4''}"
      "{}" "[]" "''/srv/downloads/j1.mp4''" "''j1''" "initial_state {} Map.empty"]
    close_settles_job [of "[StderrData ''WARNING: slow'']" "Some 0" "{}"
      "{}" "[]" "''/srv/downloads/j1.mp4''" "''j1''" "initial_state {} Map.empty"]
    close_settles_job [of "[]" "Some 1" "{}"
      "{}" "[]" "''/srv/downloads/j1.mp4''" "''j1''" "initial_state {} Map.empty"]
  by (simp add: Let_def initial_state_def string_of_code_def number_text_def
      decimal.simps digit_char_def wf_events_def)

subsection \<open>The parser of output lines\<close>

text \<open>
  Claim C2. The handler of \<open>stdout\<close> data is the parser of the source. Given the line
  \<open>[download]  12.3% of 10.00MiB at 1.23MiB/s ETA 00:10\<close> it stores, for its job, the snapshot
  with status \<open>downloading\<close>, percent 12.3, speed \<open>1.23MiB/s\<close> and eta \<open>00:10\<close>, which is the
  update that \<open>parse_line\<close> yields; a line without the character \<open>%\<close> yields no update; and
  a line that yields no update leaves the whole state, the snapshot included, as it was.
\<close>

theorem parse_line_progress:
  "parse_line ''[download]  12.3% of 10.00MiB at 1.23MiB/s ETA 00:10''
     = Some \<lparr>status = Downloading, percent = Val (123 / 10), speed = Val ''1.23MiB/s'',
             eta = Val ''00:10'', error = Absent\<rparr>
   \<and> on_stdout i ''[download]  12.3% of 10.00MiB at 1.23MiB/s ETA 00:10'' st
     = progressMap_set i
         \<lparr>status = Downloading, percent = Val (123 / 10), speed = Val ''1.23MiB/s'',
          eta = Val ''00:10'', error = Absent\<rparr> st
   \<and> progressMap (on_stdout i ''[download]  12.3% of 10.00MiB at 1.23MiB/s ETA 00:10'' st) i
     = Some \<lparr>status = Downloading, percent = Val (123 / 10), speed = Val ''1.23MiB/s'',
             eta = Val ''00:10'', error = Absent\<rparr>
   \<and> (CHR ''%'' \<notin> set line \<longrightarrow> parse_line line = None \<and> on_stdout i line st = st)
   \<and> (parse_line line = None \<longrightarrow> on_stdout i line st = st)"
proof (intro conjI impI)
  show "parse_line ''[download]  12.3% of 10.00MiB at 1.23MiB/s ETA 00:10''
     = Some \<lparr>status = Downloading, percent = Val (123 / 10), speed = Val ''1.23MiB/s'',
             eta = Val ''00:10'', error = Absent\<rparr>"
    by (rule parse_line_sample)
next
  show "on_stdout i ''[download]  12.3% of 10.00MiB at 1.23MiB/s ETA 00:10'' st
     = progressMap_set i
         \<lparr>status = Downloading, percent = Val (123 / 10), speed = Val ''1.23MiB/s'',
          eta = Val ''00:10'', error = Absent\<rparr> st"
    by (simp add: on_stdout_def parse_line_sample)
next
  show "progressMap (on_stdout i ''[download]  12.3% of 10.00MiB at 1.23MiB/s ETA 00:10'' st) i
     = Some \<lparr>status = Downloading, percent = Val (123 / 10), speed = Val ''1.23MiB/s'',
             eta = Val ''00:10'', error = Absent\<rparr>"
    by (simp add: on_stdout_def parse_line_sample progressMap_set_def)
next
  assume "CHR ''%'' \<notin> set line"
  then show "parse_line line = None"
    by (rule parse_line_needs_percent)
next
  assume "CHR ''%'' \<notin> set line"
  then have "parse_line line = None"
    by (rule parse_line_needs_percent)
  then show "on_stdout i line st = st"
    by (simp add: on_stdout_def)
next
  assume "parse_line line = None"
  then show "on_stdout i line st = st"
    by (simp add: on_stdout_def)
qed

text \<open>
  A merge notification has no \<open>%\<close>; the final line of a download has one but not the
  recognised shape. Neither changes the state, and the progress line is stored for the job.
\<close>

theorem parse_line_progress_witness:
  "CHR ''%'' \<notin> set ''[Merger] Merging formats into j1.mp4''
   \<and> parse_line ''[Merger] Merging formats into j1.mp4'' = None
   \<and> on_stdout ''j1'' ''[Merger] Merging formats into j1.mp4'' (initial_state {} Map.empty)
       = initial_state {} Map.empty
   \<and> parse_line ''[download] 100% of 10.00MiB in 00:05'' = None
   \<and> on_stdout ''j1'' ''[download] 100% of 10.00MiB in 00:05'' (initial_state {} Map.empty)
       = initial_state {} Map.empty
   \<and> progressMap (on_stdout ''j1'' ''[download]  12.3% of 10.00MiB at 1.23MiB/s ETA 00:10''
         (initial_state {} Map.empty)) ''j1''
       = Some \<lparr>status = Downloading, percent = Val (123 / 10), speed = Val ''1.23MiB/s'',
               eta = Val ''00:10'', error = Absent\<rparr>
   \<and> effects (on_stdout ''j1'' ''[download]  12.3% of 10.00MiB at 1.23MiB/s ETA 00:10''
         (initial_state {} Map.empty))
       = [ProgressSet ''j1''
            \<lparr>status = Downloading, percent = Val (123 / 10), speed = Val ''1.23MiB/s'',
             eta = Val ''00:10'', error = Absent\<rparr>]"
proof -
  have "search progress_re ''[download] 100% of 10.00MiB in 00:05'' = None"
    by (simp add: progress_re_def lit_def char_classes)
  then have none: "parse_line ''[download] 100% of 10.00MiB in 00:05'' = None"
    by (simp add: parse_line_def)
  show ?thesis
    using parse_line_progress [of "''j1''" "initial_state {} Map.empty"
        "''[Merger] Merging formats into j1.mp4''"]
      parse_line_progress [of "''j1''" "initial_state {} Map.empty"
        "''[download] 100% of 10.00MiB in 00:05''"]
      none
    by (simp add: progressMap_set_def initial_state_def)
qed

subsection \<open>The order of statuses\<close>

text \<open>
  Claim C3. For every sequence of events that Node can deliver to one run, the statuses set for
  the job are \<open>starting\<close>, then \<open>downloading\<close> any number of times, then at most one terminal
  status, which later events can only repeat; the status that a poll reads is the one set last;
  and once an \<open>error\<close> or a \<open>close\<close> event was delivered, that status is \<open>completed\<close> or
  \<open>error\<close>.
\<close>

theorem status_order:
  assumes "wf_events evs"
  shows "let st' = runYtDlp args outputPath i evs st;
             ws = map status (written i (effects_since st st'))
         in lifecycle ws
          \<and> map_option status (progressMap st' i) = Some (last ws)
          \<and> (\<not> list_all is_output evs \<longrightarrow> last ws = Completed \<or> last ws = Error)"
proof -
  let ?st' = "runYtDlp args outputPath i evs st"
  let ?ws = "map status (written i (effects_since st ?st'))"
  from run_written [OF assms, where i = i and st = st and args = args and op = outputPath]
  obtain k ts where
    ws: "?ws = Starting # replicate k Downloading @ ts" and
    ts: "ts = [] \<or> ts = [Completed] \<or> ts = [Error] \<or> ts = [Error, Error]" and
    fin: "ts = [] \<longleftrightarrow> list_all is_output evs"
    by (elim exE conjE)
  have "in_progress ts"
    using ts by auto
  then have order: "lifecycle ?ws"
    by (simp add: ws in_progress_downloading)
  have poll: "map_option status (progressMap ?st' i) = Some (last ?ws)"
    using run_written_store [of i st args outputPath evs] by (simp add: last_map)
  have "last ?ws = Completed \<or> last ?ws = Error" if "\<not> list_all is_output evs"
  proof -
    from that fin have "ts \<noteq> []" by simp
    then have "last ?ws = last ts"
      by (simp add: ws)
    with ts \<open>ts \<noteq> []\<close> show ?thesis by auto
  qed
  with order poll show ?thesis
    by (simp add: Let_def)
qed

text \<open>A run with one progress line, one other line, a warning, and a successful exit.\<close>

theorem status_order_witness:
  "wf_events [StdoutData ''[download]  12.3% of 10.00MiB at 1.23MiB/s ETA 00:10'',
              StdoutData ''[Merger] Merging formats into j1.mp4'',
              StderrData ''WARNING: slow'',
              CloseEvent (Some 0) {''/srv/downloads/j1.mp4''} {}]
   \<and> map status (written ''j1'' (effects_since (initial_state {} Map.empty)
         (runYtDlp [] ''/srv/downloads/j1.mp4'' ''j1''
            [StdoutData ''[download]  12.3% of 10.00MiB at 1.23MiB/s ETA 00:10'',
             StdoutData ''[Merger] Merging formats into j1.mp4'',
             StderrData ''WARNING: slow'',
             CloseEvent (Some 0) {''/srv/downloads/j1.mp4''} {}]
            (initial_state {} Map.empty))))
     = [Starting, Downloading, Completed]
   \<and> lifecycle [Starting, Downloading, Completed]"
proof -
  have no_update: "parse_line ''[Merger] Merging formats into j1.mp4'' = None"
    by (simp add: parse_line_needs_percent)
  have update: "parse_line ''[download]  12.3% of 10.00MiB at 1.23MiB/s ETA 00:10''
      = Some (downloading_snapshot [(3, ''00:10''), (2, ''1.23MiB/s''), (1, ''12.3'')])"
    unfolding parse_line_def search_sample by simp
  have written:
    "map status (written ''j1'' (effects_since (initial_state {} Map.empty)
         (runYtDlp [] ''/srv/downloads/j1.mp4'' ''j1''
            [StdoutData ''[download]  12.3% of 10.00MiB at 1.23MiB/s ETA 00:10'',
             StdoutData ''[Merger] Merging formats into j1.mp4'',
             StderrData ''WARNING: slow'',
             CloseEvent (Some 0) {''/srv/downloads/j1.mp4''} {}]
            (initial_state {} Map.empty))))
     = [Starting, Downloading, Completed]"
    by (simp add: runYtDlp_def launch_def on_stdout_def on_stderr_def on_close_def Let_def
        resolve_def progressMap_set_def effects_since_def initial_state_def no_update update
        starting_snapshot_def downloading_snapshot_def completed_snapshot_def)
  show ?thesis
    using status_order [of "[StdoutData ''[download]  12.3% of 10.00MiB at 1.23MiB/s ETA 00:10'',
             StdoutData ''[Merger] Merging formats into j1.mp4'',
             StderrData ''WARNING: slow'',
             CloseEvent (Some 0) {''/srv/downloads/j1.mp4''} {}]" "[]" "''/srv/downloads/j1.mp4''"
          "''j1''" "initial_state {} Map.empty"]
    by (simp add: Let_def written wf_events_def)
qed

subsection \<open>The percent of a snapshot\<close>

text \<open>
  Claim C4, as the code has it. Every snapshot that a run sets carries a percent by its status:
  the starting snapshot has percent 0, the completed snapshot has percent 100, a downloading
  snapshot has the number that the process printed, which is not negative and which the code
  does not bound from above, and an error snapshot has no percent.
\<close>

theorem percent_by_status:
  "list_all percent_rule (written i (effects_since st (runYtDlp args outputPath i evs st)))
   \<and> (case progressMap (runYtDlp args outputPath i evs st) i of
        None \<Rightarrow> False
      | Some v \<Rightarrow> percent_rule v)"
proof -
  let ?ws = "written i (effects_since st (runYtDlp args outputPath i evs st))"
  from run_written_store [of i st args outputPath evs]
  have ws: "?ws \<noteq> []" "list_all percent_rule ?ws"
    and stored: "progressMap (runYtDlp args outputPath i evs st) i = Some (last ?ws)"
    by simp_all
  from ws have "percent_rule (last ?ws)"
    by (simp add: list_all_iff)
  with ws stored show ?thesis
    by simp
qed

text \<open>A run with one progress line that exits with code 1.\<close>

theorem percent_by_status_witness:
  "map percent (written ''j1'' (effects_since (initial_state {} Map.empty)
       (runYtDlp [] ''/srv/downloads/j1.mp4'' ''j1''
          [StdoutData ''[download]  12.3% of 10.00MiB at 1.23MiB/s ETA 00:10'',
           CloseEvent (Some 1) {} {}]
          (initial_state {} Map.empty))))
     = [Val 0, Val (123 / 10), Absent]
   \<and> list_all percent_rule (written ''j1'' (effects_since (initial_state {} Map.empty)
       (runYtDlp [] ''/srv/downloads/j1.mp4'' ''j1''
          [StdoutData ''[download]  12.3% of 10.00MiB at 1.23MiB/s ETA 00:10'',
           CloseEvent (Some 1) {} {}]
          (initial_state {} Map.empty))))"
proof -
  have update: "parse_line ''[download]  12.3% of 10.00MiB at 1.23MiB/s ETA 00:10''
      = Some \<lparr>status = Downloading, percent = Val (123 / 10), speed = Val ''1.23MiB/s'',
             eta = Val ''00:10'', error = Absent\<rparr>"
    by (rule parse_line_sample)
  have "map percent (written ''j1'' (effects_since (initial_state {} Map.empty)
       (runYtDlp [] ''/srv/downloads/j1.mp4'' ''j1''
          [StdoutData ''[download]  12.3% of 10.00MiB at 1.23MiB/s ETA 00:10'',
           CloseEvent (Some 1) {} {}]
          (initial_state {} Map.empty))))
     = [Val 0, Val (123 / 10), Absent]"
    by (simp add: runYtDlp_def launch_def on_stdout_def on_close_def Let_def reject_def
        progressMap_set_def effects_since_def initial_state_def update starting_snapshot_def
        error_snapshot_def)
  then show ?thesis
    using percent_by_status [of "''j1''" "initial_state {} Map.empty" "[]"
        "''/srv/downloads/j1.mp4''"
        "[StdoutData ''[download]  12.3% of 10.00MiB at 1.23MiB/s ETA 00:10'',
          CloseEvent (Some 1) {} {}]"]
    by simp
qed

text \<open>
  Claim C4 as the specification words it fails twice: the starting snapshot carries the percent
  0, and the percent of a downloading snapshot is what the process printed, here 250.
\<close>

theorem percent_range_counterexample:
  "map status (written ''j1'' (effects_since (initial_state {} Map.empty)
       (runYtDlp [] ''/srv/downloads/j1.mp4'' ''j1''
          [StdoutData ''[download]  250.0% of 10.00MiB at 1.23MiB/s ETA 00:10'']
          (initial_state {} Map.empty))))
     = [Starting, Downloading]
   \<and> map percent (written ''j1'' (effects_since (initial_state {} Map.empty)
       (runYtDlp [] ''/srv/downloads/j1.mp4'' ''j1''
          [StdoutData ''[download]  250.0% of 10.00MiB at 1.23MiB/s ETA 00:10'']
          (initial_state {} Map.empty))))
     = [Val 0, Val 250]
   \<and> \<not> (250 :: rat) \<le> 100"
proof -
  have "search progress_re ''[download]  250.0% of 10.00MiB at 1.23MiB/s ETA 00:10''
     = Some [(3, ''00:10''), (2, ''1.23MiB/s''), (1, ''250.0'')]"
    by (simp add: progress_re_def lit_def char_classes)
  then have update: "parse_line ''[download]  250.0% of 10.00MiB at 1.23MiB/s ETA 00:10''
      = Some \<lparr>status = Downloading, percent = Val 250, speed = Val ''1.23MiB/s'',
             eta = Val ''00:10'', error = Absent\<rparr>"
    by (simp add: parse_line_def downloading_snapshot_def group_def Number_def digits_value_def
        digit_value_def is_digit_def)
  show ?thesis
    by (simp add: runYtDlp_def launch_def on_stdout_def progressMap_set_def effects_since_def
        initial_state_def update starting_snapshot_def)
qed

subsection \<open>The plan of a single video\<close>

text \<open>
  Claim C6. For a request for a single video with the quality \<open>Np\<close> and the format \<open>F\<close>,
  \<open>yt-dlp\<close> is spawned once, and its argument list starts with the URL, the option \<open>-f\<close> with
  the selector \<open>bestvideo[height<=N]+bestaudio/best[ext=F]\<close>, the output path, and
  \<open>--no-playlist\<close>, whatever the shape of the URL.
\<close>

theorem video_plan:
  assumes "url b = Some u" "u \<noteq> []" "isValidYouTubeUrl u"
    and "quality b = Some (n @ ''p'')" "CHR ''p'' \<notin> set n" "CHR ''P'' \<notin> set n"
    and "format b = Some f"
  shows "\<exists>args. spawned (effects_since st (snd (post_download_video e b new_id evs st))) = [args]
     \<and> take 6 args =
         [u, ''-f'', ''bestvideo[height<='' @ n @ '']+bestaudio/best[ext='' @ f @ '']'',
          ''-o'', path_join e (DOWNLOAD_DIR e) (new_id @ ''.'' @ f), ''--no-playlist'']"
  using assms
  by (simp add: post_video_valid run_spawned default_def video_args_def format_selector_def
      replace_p_quality)

text \<open>A request whose URL names a video inside a playlist.\<close>

theorem video_plan_witness:
  "isValidYouTubeUrl ''https://www.youtube.com/watch?v=abc&list=PL1''
   \<and> CHR ''p'' \<notin> set ''1080'' \<and> CHR ''P'' \<notin> set ''1080''
   \<and> spawned (effects_since (initial_state {} Map.empty)
        (snd (post_download_video posix_env
           \<lparr>url = Some ''https://www.youtube.com/watch?v=abc&list=PL1'',
            quality = Some (''1080'' @ ''p''), format = Some ''mkv'', startTime = None,
            endTime = None, audioOnly = None\<rparr>
           ''j1'' [] (initial_state {} Map.empty))))
     = [[''https://www.youtube.com/watch?v=abc&list=PL1'', ''-f'',
         ''bestvideo[height<=1080]+bestaudio/best[ext=mkv]'', ''-o'', ''/srv/downloads/j1.mkv'',
         ''--no-playlist'']]"
proof -
  have valid: "isValidYouTubeUrl ''https://www.youtube.com/watch?v=abc&list=PL1''"
    by (simp add: isValidYouTubeUrl_def url_prefixes_def)
  from video_plan [of "\<lparr>url = Some ''https://www.youtube.com/watch?v=abc&list=PL1'',
            quality = Some (''1080'' @ ''p''), format = Some ''mkv'', startTime = None,
            endTime = None, audioOnly = None\<rparr>"
      "''https://www.youtube.com/watch?v=abc&list=PL1''" "''1080''" "''mkv''"
      "initial_state {} Map.empty" posix_env "''j1''" "[]"] valid
  obtain args where
    "spawned (effects_since (initial_state {} Map.empty)
        (snd (post_download_video posix_env
           \<lparr>url = Some ''https://www.youtube.com/watch?v=abc&list=PL1'',
            quality = Some (''1080'' @ ''p''), format = Some ''mkv'', startTime = None,
            endTime = None, audioOnly = None\<rparr>
           ''j1'' [] (initial_state {} Map.empty)))) = [args]"
    by auto
  then show ?thesis
    using valid
    by (simp add: post_download_video_def Let_def default_def video_args_def format_selector_def
        truthy_def posix_env_def runYtDlp_def launch_def progressMap_set_def effects_since_def
        initial_state_def)
qed

text \<open>
  Claim C7. The argument list of a request for a single video is the six arguments of the plan,
  followed by \<open>--download-sections\<close> and \<open>*start-end\<close> exactly when a start or an end time is
  given (a time that is missing or empty is not given); a start that is not given is \<open>0\<close>, an
  end that is not given is \<open>inf\<close>, and a time that is given is used as it is.
\<close>

theorem video_sections:
  assumes "url b = Some u" "u \<noteq> []" "isValidYouTubeUrl u"
  shows "\<exists>args base.
       spawned (effects_since st (snd (post_download_video e b new_id evs st))) = [args]
     \<and> base = [u, ''-f'', format_selector (default (quality b) ''720p'')
                             (default (format b) ''mp4''),
          ''-o'', path_join e (DOWNLOAD_DIR e) (new_id @ ''.'' @ default (format b) ''mp4''),
          ''--no-playlist'']
     \<and> (truthy (startTime b) \<or> truthy (endTime b) \<longrightarrow>
          args = base @ [''--download-sections'',
                         ''*'' @ or_else (startTime b) ''0'' @ ''-'' @ or_else (endTime b) ''inf''])
     \<and> (\<not> truthy (startTime b) \<and> \<not> truthy (endTime b) \<longrightarrow> args = base)
     \<and> (\<not> truthy (startTime b) \<longrightarrow> or_else (startTime b) ''0'' = ''0'')
     \<and> (\<not> truthy (endTime b) \<longrightarrow> or_else (endTime b) ''inf'' = ''inf'')
     \<and> (\<forall>s. startTime b = Some s \<and> s \<noteq> [] \<longrightarrow> or_else (startTime b) ''0'' = s)
     \<and> (\<forall>t. endTime b = Some t \<and> t \<noteq> [] \<longrightarrow> or_else (endTime b) ''inf'' = t)"
  using assms
  by (auto simp: post_video_valid run_spawned video_args_def truthy_def or_else_def
      split: option.splits)

text \<open>A request with an end time only, and the same request with no time.\<close>

theorem video_sections_witness:
  "isValidYouTubeUrl ''https://youtu.be/abc''
   \<and> spawned (effects_since (initial_state {} Map.empty)
        (snd (post_download_video posix_env
           \<lparr>url = Some ''https://youtu.be/abc'', quality = None, format = None,
            startTime = None, endTime = Some ''90'', audioOnly = None\<rparr>
           ''j1'' [] (initial_state {} Map.empty))))
     = [[''https://youtu.be/abc'', ''-f'', ''bestvideo[height<=720]+bestaudio/best[ext=mp4]'',
         ''-o'', ''/srv/downloads/j1.mp4'', ''--no-playlist'', ''--download-sections'',
         ''*0-90'']]
   \<and> spawned (effects_since (initial_state {} Map.empty)
        (snd (post_download_video posix_env
           \<lparr>url = Some ''https://youtu.be/abc'', quality = None, format = None,
            startTime = None, endTime = None, audioOnly = None\<rparr>
           ''j1'' [] (initial_state {} Map.empty))))
     = [[''https://youtu.be/abc'', ''-f'', ''bestvideo[height<=720]+bestaudio/best[ext=mp4]'',
         ''-o'', ''/srv/downloads/j1.mp4'', ''--no-playlist'']]"
proof -
  have valid: "isValidYouTubeUrl ''https://youtu.be/abc''"
    by (simp add: isValidYouTubeUrl_def url_prefixes_def)
  from video_sections [of "\<lparr>url = Some ''https://youtu.be/abc'', quality = None, format = None,
            startTime = None, endTime = Some ''90'', audioOnly = None\<rparr>"
      "''https://youtu.be/abc''" "initial_state {} Map.empty" posix_env "''j1''" "[]"] valid
  have "spawned (effects_since (initial_state {} Map.empty)
        (snd (post_download_video posix_env
           \<lparr>url = Some ''https://youtu.be/abc'', quality = None, format = None,
            startTime = None, endTime = Some ''90'', audioOnly = None\<rparr>
           ''j1'' [] (initial_state {} Map.empty))))
     = [[''https://youtu.be/abc'', ''-f'', ''bestvideo[height<=720]+bestaudio/best[ext=mp4]'',
         ''-o'', ''/srv/downloads/j1.mp4'', ''--no-playlist'', ''--download-sections'',
         ''*0-90'']]"
    by (simp add: truthy_def or_else_def default_def format_selector_def posix_env_def)
  moreover
  from video_sections [of "\<lparr>url = Some ''https://youtu.be/abc'', quality = None, format = None,
            startTime = None, endTime = None, audioOnly = None\<rparr>"
      "''https://youtu.be/abc''" "initial_state {} Map.empty" posix_env "''j1''" "[]"] valid
  have "spawned (effects_since (initial_state {} Map.empty)
        (snd (post_download_video posix_env
           \<lparr>url = Some ''https://youtu.be/abc'', quality = None, format = None,
            startTime = None, endTime = None, audioOnly = None\<rparr>
           ''j1'' [] (initial_state {} Map.empty))))
     = [[''https://youtu.be/abc'', ''-f'', ''bestvideo[height<=720]+bestaudio/best[ext=mp4]'',
         ''-o'', ''/srv/downloads/j1.mp4'', ''--no-playlist'']]"
    by (simp add: truthy_def or_else_def default_def format_selector_def posix_env_def)
  ultimately show ?thesis
    using valid by simp
qed

subsection \<open>The plan of a playlist\<close>

text \<open>
  Claim C8. For a playlist request \<open>yt-dlp\<close> is spawned once. In audio-only mode the argument
  list is the URL, \<open>-x\<close>, \<open>--audio-format\<close> with the format, and the output template; no
  option \<open>-f\<close> with a quality selector occurs in it. In video mode the list holds the option
  \<open>-f\<close> with the selector that the plan of a single video has for the same quality and format.
  In both modes the template is the file \<open>%(playlist_index)s-%(id)s.%(ext)s\<close> joined to the
  directory that is the download directory joined with the job id.
\<close>

theorem playlist_plan:
  assumes "url b = Some u" "u \<noteq> []" "isValidYouTubeUrl u"
    and "mkdir_fault st (path_join e (DOWNLOAD_DIR e) new_id) = None"
  shows "\<exists>args template q f.
       spawned (effects_since st (snd (post_download_playlist e b new_id evs st))) = [args]
     \<and> template = path_join e (path_join e (DOWNLOAD_DIR e) new_id)
                     ''%(playlist_index)s-%(id)s.%(ext)s''
     \<and> q = default (quality b) ''720p'' \<and> f = default (format b) ''mp4''
     \<and> (audioOnly b = Some True \<longrightarrow>
          args = [u, ''-x'', ''--audio-format'', f, ''-o'', template]
          \<and> (\<forall>q' f'. \<not> adjacent ''-f'' (format_selector q' f') args))
     \<and> (audioOnly b \<noteq> Some True \<longrightarrow>
          args = [u, ''-f'', format_selector q f, ''-o'', template]
          \<and> adjacent ''-f'' (format_selector q f) args
          \<and> take 3 args = take 3 (video_args u q f (startTime b) (endTime b) template))"
proof -
  let ?folder = "path_join e (DOWNLOAD_DIR e) new_id"
  let ?st1 = "st\<lparr>disk := insert ?folder (disk st), effects := effects st @ [MkdirSync ?folder]\<rparr>"
  let ?args = "playlist_args u (default (quality b) ''720p'') (default (format b) ''mp4'')
               (default (audioOnly b) False)
               (path_join e ?folder ''%(playlist_index)s-%(id)s.%(ext)s'')"
  let ?st' = "runYtDlp ?args ?folder new_id evs ?st1"
  have snd: "snd (post_download_playlist e b new_id evs st) = ?st'"
    using assms by (simp add: post_playlist_valid Let_def)
  from run_effects_head [of ?args ?folder new_id evs ?st1] obtain rest where
    "effects ?st' = effects st @ MkdirSync ?folder # Spawn ''yt-dlp'' ?args # rest"
    by auto
  moreover from run_spawned [of ?st1 ?args ?folder new_id evs]
  have "spawned (drop (Suc (length (effects st))) (effects ?st')) = [?args]"
    by (simp add: effects_since_def)
  ultimately have sp: "spawned (effects_since st ?st') = [?args]"
    by (simp add: effects_since_def)
  show ?thesis
    using sp assms(3)
    by (cases "audioOnly b")
       (auto simp: snd playlist_args_def default_def video_args_def selector_not_flag
          selector_not_flag [THEN not_sym] dest: valid_url_not_flag)
qed

text \<open>The same playlist in audio-only mode and in video mode.\<close>

theorem playlist_plan_witness:
  "isValidYouTubeUrl ''https://www.youtube.com/playlist?list=PL1''
   \<and> mkdir_fault (initial_state {} Map.empty) (path_join posix_env (DOWNLOAD_DIR posix_env) ''j1'')
       = None
   \<and> spawned (effects_since (initial_state {} Map.empty)
        (snd (post_download_playlist posix_env
           \<lparr>url = Some ''https://www.youtube.com/playlist?list=PL1'', quality = Some ''480p'',
            format = Some ''mp3'', startTime = None, endTime = None, audioOnly = Some True\<rparr>
           ''j1'' [] (initial_state {} Map.empty))))
     = [[''https://www.youtube.com/playlist?list=PL1'', ''-x'', ''--audio-format'', ''mp3'',
         ''-o'', ''/srv/downloads/j1/%(playlist_index)s-%(id)s.%(ext)s'']]
   \<and> spawned (effects_since (initial_state {} Map.empty)
        (snd (post_download_playlist posix_env
           \<lparr>url = Some ''https://www.youtube.com/playlist?list=PL1'', quality = Some ''480p'',
            format = Some ''mp4'', startTime = None, endTime = None, audioOnly = None\<rparr>
           ''j1'' [] (initial_state {} Map.empty))))
     = [[''https://www.youtube.com/playlist?list=PL1'', ''-f'',
         ''bestvideo[height<=480]+bestaudio/best[ext=mp4]'',
         ''-o'', ''/srv/downloads/j1/%(playlist_index)s-%(id)s.%(ext)s'']]"
proof -
  have valid: "isValidYouTubeUrl ''https://www.youtube.com/playlist?list=PL1''"
    by (simp add: isValidYouTubeUrl_def url_prefixes_def)
  have ok: "mkdir_fault (initial_state {} Map.empty)
      (path_join posix_env (DOWNLOAD_DIR posix_env) ''j1'') = None"
    by (simp add: initial_state_def)
  from playlist_plan [of "\<lparr>url = Some ''https://www.youtube.com/playlist?list=PL1'',
            quality = Some ''480p'', format = Some ''mp3'', startTime = None, endTime = None,
            audioOnly = Some True\<rparr>"
      "''https://www.youtube.com/playlist?list=PL1''" "initial_state {} Map.empty" posix_env
      "''j1''" "[]"] valid ok
  have "spawned (effects_since (initial_state {} Map.empty)
        (snd (post_download_playlist posix_env
           \<lparr>url = Some ''https://www.youtube.com/playlist?list=PL1'', quality = Some ''480p'',
            format = Some ''mp3'', startTime = None, endTime = None, audioOnly = Some True\<rparr>
           ''j1'' [] (initial_state {} Map.empty))))
     = [[''https://www.youtube.com/playlist?list=PL1'', ''-x'', ''--audio-format'', ''mp3'',
         ''-o'', ''/srv/downloads/j1/%(playlist_index)s-%(id)s.%(ext)s'']]"
    by (simp add: default_def posix_env_def)
  moreover
  from playlist_plan [of "\<lparr>url = Some ''https://www.youtube.com/playlist?list=PL1'',
            quality = Some ''480p'', format = Some ''mp4'', startTime = None, endTime = None,
            audioOnly = None\<rparr>"
      "''https://www.youtube.com/playlist?list=PL1''" "initial_state {} Map.empty" posix_env
      "''j1''" "[]"] valid ok
  have "spawned (effects_since (initial_state {} Map.empty)
        (snd (post_download_playlist posix_env
           \<lparr>url = Some ''https://www.youtube.com/playlist?list=PL1'', quality = Some ''480p'',
            format = Some ''mp4'', startTime = None, endTime = None, audioOnly = None\<rparr>
           ''j1'' [] (initial_state {} Map.empty))))
     = [[''https://www.youtube.com/playlist?list=PL1'', ''-f'',
         ''bestvideo[height<=480]+bestaudio/best[ext=mp4]'',
         ''-o'', ''/srv/downloads/j1/%(playlist_index)s-%(id)s.%(ext)s'']]"
    by (simp add: default_def posix_env_def format_selector_def)
  ultimately show ?thesis
    using valid ok by simp
qed

text \<open>
  Claim C5, as the code has it. A playlist request with a valid URL, whose directory can be
  made, makes the directory of the job before it spawns \<open>yt-dlp\<close>, whatever the process does
  afterwards, and that directory is the path looked up at the exit. So when the process exits
  with code 0 and the directory is still there, the snapshot becomes \<open>completed\<close> and the route
  answers with the directory's URL, whatever files were or were not written; when the directory
  was removed while the process ran, exit code 0 gives the snapshot \<open>error\<close> and the route
  fails with the message of the exit.
\<close>

theorem playlist_completes:
  assumes "url b = Some u" "u \<noteq> []" "isValidYouTubeUrl u"
    and "mkdir_fault st (path_join e (DOWNLOAD_DIR e) new_id) = None"
  shows "(\<exists>args rest.
       effects_since st (snd (post_download_playlist e b new_id evs st))
       = MkdirSync (path_join e (DOWNLOAD_DIR e) new_id) # Spawn ''yt-dlp'' args # rest)
     \<and> (wf_events (outs @ [CloseEvent (Some 0) created removed]) \<longrightarrow>
         (path_join e (DOWNLOAD_DIR e) new_id \<notin> removed \<longrightarrow>
            progressMap
              (snd (post_download_playlist e b new_id
                 (outs @ [CloseEvent (Some 0) created removed]) st)) new_id
            = Some \<lparr>status = Completed, percent = Val 100, speed = Absent, eta = Absent,
                    error = Absent\<rparr>
          \<and> fst (post_download_playlist e b new_id
                 (outs @ [CloseEvent (Some 0) created removed]) st)
            = JsonDownload new_id (''/downloads/'' @ new_id @ ''/''))
       \<and> (path_join e (DOWNLOAD_DIR e) new_id \<in> removed \<longrightarrow>
            progressMap
              (snd (post_download_playlist e b new_id
                 (outs @ [CloseEvent (Some 0) created removed]) st)) new_id
            = Some \<lparr>status = Error, percent = Absent, speed = Absent, eta = Absent,
                    error = Val (if stderr_text outs \<noteq> [] then stderr_text outs
                                 else ''yt-dlp exited with code 0'')\<rparr>
          \<and> fst (post_download_playlist e b new_id
                 (outs @ [CloseEvent (Some 0) created removed]) st)
            = NextError (if stderr_text outs \<noteq> [] then stderr_text outs
                         else ''yt-dlp exited with code 0'')))"
proof -
  let ?folder = "path_join e (DOWNLOAD_DIR e) new_id"
  let ?st1 = "st\<lparr>disk := insert ?folder (disk st), effects := effects st @ [MkdirSync ?folder]\<rparr>"
  let ?args = "playlist_args u (default (quality b) ''720p'') (default (format b) ''mp4'')
               (default (audioOnly b) False)
               (path_join e ?folder ''%(playlist_index)s-%(id)s.%(ext)s'')"
  let ?run = "\<lambda>xs. runYtDlp ?args ?folder new_id xs ?st1"
  let ?evs = "outs @ [CloseEvent (Some 0) created removed]"
  have post: "post_download_playlist e b new_id xs st =
      (respond (promise (?run xs)) (JsonDownload new_id (''/downloads/'' @ new_id @ ''/'')),
       ?run xs)" for xs
    using assms by (simp add: post_playlist_valid Let_def)
  from run_effects_head [of ?args ?folder new_id evs ?st1] obtain rest where
    eff: "effects (?run evs) = effects st @ MkdirSync ?folder # Spawn ''yt-dlp'' ?args # rest"
    by auto
  have order: "\<exists>args rest.
       effects_since st (snd (post_download_playlist e b new_id evs st))
       = MkdirSync ?folder # Spawn ''yt-dlp'' args # rest"
    using eff by (simp add: post effects_since_def)
  have code: "exit_message [] (Some 0) = ''yt-dlp exited with code 0''"
    by (simp add: exit_message_def string_of_code_def number_text_def decimal.simps
        digit_char_def)
  have msg: "exit_message (stderr_text outs) (Some 0)
      = (if stderr_text outs \<noteq> [] then stderr_text outs else ''yt-dlp exited with code 0'')"
    using code by (simp add: exit_message_def)
  have kept: "progressMap (?run ?evs) new_id = Some completed_snapshot
      \<and> promise (?run ?evs) = Resolved"
    if "wf_events ?evs" "?folder \<notin> removed"
  proof -
    from wf_close_shape [OF that(1)] have "list_all is_output outs"
      by auto
    with that(2) show ?thesis
      by (simp add: runYtDlp_def on_close_store on_close_promise outputs_disk outputs_promise
          launch_fields)
  qed
  have gone: "progressMap (?run ?evs) new_id
        = Some (error_snapshot (exit_message (stderr_text outs) (Some 0)))
      \<and> promise (?run ?evs) = Rejected (exit_message (stderr_text outs) (Some 0))"
    if "wf_events ?evs" "?folder \<in> removed"
  proof -
    from wf_close_shape [OF that(1)] have "list_all is_output outs"
      by auto
    with that(2) show ?thesis
      by (simp add: runYtDlp_def on_close_store on_close_promise outputs_disk outputs_promise
          outputs_stderr launch_fields)
  qed
  show ?thesis
  proof (intro conjI impI)
    show "\<exists>args rest.
       effects_since st (snd (post_download_playlist e b new_id evs st))
       = MkdirSync ?folder # Spawn ''yt-dlp'' args # rest"
      by (rule order)
  next
    assume "wf_events ?evs" "?folder \<notin> removed"
    from kept [OF this] show "progressMap (snd (post_download_playlist e b new_id ?evs st)) new_id
        = Some \<lparr>status = Completed, percent = Val 100, speed = Absent, eta = Absent,
                error = Absent\<rparr>"
      by (simp add: post completed_snapshot_def)
  next
    assume "wf_events ?evs" "?folder \<notin> removed"
    from kept [OF this] show "fst (post_download_playlist e b new_id ?evs st)
        = JsonDownload new_id (''/downloads/'' @ new_id @ ''/'')"
      by (simp add: post respond_def)
  next
    assume "wf_events ?evs" "?folder \<in> removed"
    from gone [OF this] show "progressMap (snd (post_download_playlist e b new_id ?evs st)) new_id
        = Some \<lparr>status = Error, percent = Absent, speed = Absent, eta = Absent,
                error = Val (if stderr_text outs \<noteq> [] then stderr_text outs
                             else ''yt-dlp exited with code 0'')\<rparr>"
      by (simp add: post error_snapshot_def msg)
  next
    assume "wf_events ?evs" "?folder \<in> removed"
    from gone [OF this] show "fst (post_download_playlist e b new_id ?evs st)
        = NextError (if stderr_text outs \<noteq> [] then stderr_text outs
                     else ''yt-dlp exited with code 0'')"
      by (simp add: post respond_def msg)
  qed
qed

text \<open>
  A playlist job whose process writes nothing at all and exits with code 0: the directory that
  the route made is there, and the job is completed.
\<close>

theorem playlist_completes_witness:
  "isValidYouTubeUrl ''https://www.youtube.com/playlist?list=PL1''
   \<and> wf_events ([] @ [CloseEvent (Some 0) {} {}])
   \<and> ''/srv/downloads/j1'' \<notin> ({} :: string set)
   \<and> effects_since (initial_state {} Map.empty)
         (snd (post_download_playlist posix_env
            \<lparr>url = Some ''https://www.youtube.com/playlist?list=PL1'', quality = None,
             format = None, startTime = None, endTime = None, audioOnly = None\<rparr>
            ''j1'' [] (initial_state {} Map.empty)))
       = [MkdirSync ''/srv/downloads/j1'',
          Spawn ''yt-dlp'' [''https://www.youtube.com/playlist?list=PL1'', ''-f'',
            ''bestvideo[height<=720]+bestaudio/best[ext=mp4]'', ''-o'',
            ''/srv/downloads/j1/%(playlist_index)s-%(id)s.%(ext)s''],
          ProgressSet ''j1'' starting_snapshot]
   \<and> progressMap
         (snd (post_download_playlist posix_env
            \<lparr>url = Some ''https://www.youtube.com/playlist?list=PL1'', quality = None,
             format = None, startTime = None, endTime = None, audioOnly = None\<rparr>
            ''j1'' ([] @ [CloseEvent (Some 0) {} {}]) (initial_state {} Map.empty)))
         ''j1''
       = Some \<lparr>status = Completed, percent = Val 100, speed = Absent, eta = Absent,
               error = Absent\<rparr>
   \<and> fst (post_download_playlist posix_env
            \<lparr>url = Some ''https://www.youtube.com/playlist?list=PL1'', quality = None,
             format = None, startTime = None, endTime = None, audioOnly = None\<rparr>
            ''j1'' ([] @ [CloseEvent (Some 0) {} {}]) (initial_state {} Map.empty))
       = JsonDownload ''j1'' ''/downloads/j1/''"
proof -
  have valid: "isValidYouTubeUrl ''https://www.youtube.com/playlist?list=PL1''"
    by (simp add: isValidYouTubeUrl_def url_prefixes_def)
  have ok: "mkdir_fault (initial_state {} Map.empty)
      (path_join posix_env (DOWNLOAD_DIR posix_env) ''j1'') = None"
    by (simp add: initial_state_def)
  have wf: "wf_events ([] @ [CloseEvent (Some 0) {} {}])"
    by (simp add: wf_events_def)
  have log: "effects_since (initial_state {} Map.empty)
         (snd (post_download_playlist posix_env
            \<lparr>url = Some ''https://www.youtube.com/playlist?list=PL1'', quality = None,
             format = None, startTime = None, endTime = None, audioOnly = None\<rparr>
            ''j1'' [] (initial_state {} Map.empty)))
       = [MkdirSync ''/srv/downloads/j1'',
          Spawn ''yt-dlp'' [''https://www.youtube.com/playlist?list=PL1'', ''-f'',
            ''bestvideo[height<=720]+bestaudio/best[ext=mp4]'', ''-o'',
            ''/srv/downloads/j1/%(playlist_index)s-%(id)s.%(ext)s''],
          ProgressSet ''j1'' starting_snapshot]"
    using valid
    by (simp add: post_download_playlist_def mkdirSync_def Let_def default_def
        playlist_args_def format_selector_def posix_env_def runYtDlp_def launch_def
        progressMap_set_def effects_since_def initial_state_def)
  from playlist_completes [of "\<lparr>url = Some ''https://www.youtube.com/playlist?list=PL1'',
             quality = None, format = None, startTime = None, endTime = None,
             audioOnly = None\<rparr>"
      "''https://www.youtube.com/playlist?list=PL1''" "initial_state {} Map.empty" posix_env
      "''j1''" "[]" "[]" "{}" "{}", OF _ _ valid ok]
  show ?thesis
    using valid wf log by (simp add: posix_env_def)
qed

text \<open>
  Claim C5 as it is worded fails when the directory of the job is removed while the process
  runs: the process exits with code 0, and the job ends in \<open>error\<close>, not in \<open>completed\<close>.
\<close>

theorem playlist_removed_counterexample:
  "progressMap
     (snd (post_download_playlist posix_env
        \<lparr>url = Some ''https://www.youtube.com/playlist?list=PL1'', quality = None,
         format = None, startTime = None, endTime = None, audioOnly = None\<rparr>
        ''j1'' [CloseEvent (Some 0) {} {''/srv/downloads/j1''}] (initial_state {} Map.empty)))
     ''j1''
   = Some \<lparr>status = Error, percent = Absent, speed = Absent, eta = Absent,
           error = Val ''yt-dlp exited with code 0''\<rparr>
   \<and> fst (post_download_playlist posix_env
        \<lparr>url = Some ''https://www.youtube.com/playlist?list=PL1'', quality = None,
         format = None, startTime = None, endTime = None, audioOnly = None\<rparr>
        ''j1'' [CloseEvent (Some 0) {} {''/srv/downloads/j1''}] (initial_state {} Map.empty))
   = NextError ''yt-dlp exited with code 0''"
proof -
  have valid: "isValidYouTubeUrl ''https://www.youtube.com/playlist?list=PL1''"
    by (simp add: isValidYouTubeUrl_def url_prefixes_def)
  have code: "exit_message [] (Some 0) = ''yt-dlp exited with code 0''"
    by (simp add: exit_message_def string_of_code_def number_text_def decimal.simps
        digit_char_def)
  show ?thesis
    using valid
    by (simp add: post_download_playlist_def mkdirSync_def Let_def default_def posix_env_def
        runYtDlp_def launch_def on_close_def reject_def progressMap_set_def respond_def
        initial_state_def error_snapshot_def code)
qed

subsection \<open>A process that cannot be launched\<close>

lemma on_error_records:
  "promise st = Pending \<Longrightarrow>
   progressMap (on_error i msg st) i = Some (error_snapshot msg)
   \<and> promise (on_error i msg st) = Rejected msg"
  by (simp add: on_error_fields)

text \<open>
  Claim C9, at the input where the code departs from it. When \<open>yt-dlp\<close> is not installed, Node
  delivers \<open>error\<close> with the message \<open>spawn yt-dlp ENOENT\<close> and then \<open>close\<close> with the code
  \<open>-2\<close>. The handler of \<open>error\<close> stores that message and rejects the promise with it
  (\<open>on_error_records\<close>); the handler of \<open>close\<close> then replaces the stored message, so the
  snapshot and the rejection no longer carry the same error.
\<close>

theorem launch_error_then_close:
  "progressMap (runYtDlp args outputPath i [ErrorEvent ''spawn yt-dlp ENOENT''] st) i
     = Some (error_snapshot ''spawn yt-dlp ENOENT'')
   \<and> promise (runYtDlp args outputPath i [ErrorEvent ''spawn yt-dlp ENOENT''] st)
     = Rejected ''spawn yt-dlp ENOENT''
   \<and> progressMap (runYtDlp args outputPath i
         [ErrorEvent ''spawn yt-dlp ENOENT'', CloseEvent (Some (- 2)) {} {}] st) i
     = Some (error_snapshot ''yt-dlp exited with code -2'')
   \<and> promise (runYtDlp args outputPath i
         [ErrorEvent ''spawn yt-dlp ENOENT'', CloseEvent (Some (- 2)) {} {}] st)
     = Rejected ''spawn yt-dlp ENOENT''"
proof -
  have "decimal 2 = ''2''"
    by (simp add: decimal.simps digit_char_def)
  then have "exit_message [] (Some (- 2)) = ''yt-dlp exited with code -2''"
    by (simp add: exit_message_def string_of_code_def number_text_def)
  then show ?thesis
    by (simp add: runYtDlp_def on_error_fields on_close_store on_close_promise launch_fields)
qed

subsection \<open>The progress route\<close>

text \<open>
  Claim C10. After anything the module has done since it was loaded, the progress route
  answers 404 with \<open>Unknown download id\<close> for an id for which no snapshot was ever set, and
  answers with the snapshot that was set last for every other id.
\<close>

theorem progress_query:
  "let st = foldl act (initial_state d mf) acts
   in (written i (effects st) = [] \<longrightarrow>
         get_download_progress i st = Status404 ''Unknown download id'')
    \<and> (written i (effects st) \<noteq> [] \<longrightarrow>
         get_download_progress i st = JsonProgress (last (written i (effects st))))"
  using agrees_always [of d mf acts]
  by (simp add: Let_def store_agrees_def latest_def get_download_progress_def)

text \<open>One job was launched and has failed; another id was never used.\<close>

theorem progress_query_witness:
  "written ''j2'' (effects (foldl act (initial_state {} Map.empty)
       [Launch [] ''j1'', Deliver ''/srv/downloads/j1.mp4'' ''j1'' (StderrData ''ERROR: gone''),
        Deliver ''/srv/downloads/j1.mp4'' ''j1'' (CloseEvent (Some 1) {} {})])) = []
   \<and> get_download_progress ''j2'' (foldl act (initial_state {} Map.empty)
       [Launch [] ''j1'', Deliver ''/srv/downloads/j1.mp4'' ''j1'' (StderrData ''ERROR: gone''),
        Deliver ''/srv/downloads/j1.mp4'' ''j1'' (CloseEvent (Some 1) {} {})])
     = Status404 ''Unknown download id''
   \<and> written ''j1'' (effects (foldl act (initial_state {} Map.empty)
       [Launch [] ''j1'', Deliver ''/srv/downloads/j1.mp4'' ''j1'' (StderrData ''ERROR: gone''),
        Deliver ''/srv/downloads/j1.mp4'' ''j1'' (CloseEvent (Some 1) {} {})]))
     = [starting_snapshot, error_snapshot ''ERROR: gone'']
   \<and> get_download_progress ''j1'' (foldl act (initial_state {} Map.empty)
       [Launch [] ''j1'', Deliver ''/srv/downloads/j1.mp4'' ''j1'' (StderrData ''ERROR: gone''),
        Deliver ''/srv/downloads/j1.mp4'' ''j1'' (CloseEvent (Some 1) {} {})])
     = JsonProgress (error_snapshot ''ERROR: gone'')"
proof -
  define st where "st = foldl act (initial_state {} Map.empty)
       [Launch [] ''j1'', Deliver ''/srv/downloads/j1.mp4'' ''j1'' (StderrData ''ERROR: gone''),
        Deliver ''/srv/downloads/j1.mp4'' ''j1'' (CloseEvent (Some 1) {} {})]"
  have eff: "effects st = [Spawn ''yt-dlp'' [], ProgressSet ''j1'' starting_snapshot,
      ProgressSet ''j1'' (error_snapshot ''ERROR: gone'')]"
    by (simp add: st_def launch_def on_stderr_def on_close_def Let_def reject_def
        progressMap_set_def initial_state_def exit_message_def)
  have unknown: "get_download_progress ''j2'' st = Status404 ''Unknown download id''"
    using progress_query [where i = "''j2''" and d = "{}" and mf = Map.empty and acts = "[Launch [] ''j1'',
        Deliver ''/srv/downloads/j1.mp4'' ''j1'' (StderrData ''ERROR: gone''),
        Deliver ''/srv/downloads/j1.mp4'' ''j1'' (CloseEvent (Some 1) {} {})]",
        unfolded Let_def, folded st_def]
    by (simp add: eff)
  have known: "get_download_progress ''j1'' st = JsonProgress (error_snapshot ''ERROR: gone'')"
    using progress_query [where i = "''j1''" and d = "{}" and mf = Map.empty and acts = "[Launch [] ''j1'',
        Deliver ''/srv/downloads/j1.mp4'' ''j1'' (StderrData ''ERROR: gone''),
        Deliver ''/srv/downloads/j1.mp4'' ''j1'' (CloseEvent (Some 1) {} {})]",
        unfolded Let_def, folded st_def]
    by (simp add: eff)
  show ?thesis
    unfolding st_def [symmetric] using unknown known by (simp add: eff)
qed

end
